theory Spec2Isabelle
  imports Complex_Main "HOL-Library.Multiset"
begin

section \<open>Python values as the scorer sees them\<close>

text \<open>
  The scorer of \<^verbatim>\<open>scoring.py\<close> works on school records that \<^verbatim>\<open>json.load\<close> produced:
  nested dictionaries, lists, strings, numbers, booleans and \<^verbatim>\<open>None\<close>. A dictionary is
  an association list read with \<open>map_of\<close>. Numbers are exact reals and the rounding error
  of binary floating point is not modelled: a result is exact here where Python holds the
  nearest double, so the two agree on integers and can differ in the last digit of a
  rounding elsewhere. A number of the record with an integer value is taken for a Python
  \<^verbatim>\<open>int\<close>, any other for a \<^verbatim>\<open>float\<close>. Strings are lists of characters, one \<open>char\<close> per
  character of the Python string, so a character is a code point below 256.
\<close>

datatype json =
    JNull
  | JBool bool
  | JNum real
  | JStr string
  | JArr "json list"
  | JObj "(string \<times> json) list"

text \<open>Every exception the scorer can run into is a value; \<open>Inl\<close> is a raised exception.\<close>

datatype py_error =
  AttributeError | TypeError | KeyError | IndexError | ValueError | OverflowError

definition py_bind :: "py_error + 'a \<Rightarrow> ('a \<Rightarrow> py_error + 'b) \<Rightarrow> py_error + 'b" where
  "py_bind m f = (case m of Inl e \<Rightarrow> Inl e | Inr x \<Rightarrow> f x)"

text \<open>Truth value testing (\<^verbatim>\<open>if x\<close>, \<^verbatim>\<open>not x\<close>): \<^verbatim>\<open>None\<close>, \<^verbatim>\<open>False\<close>, zero and every
  empty container are false.\<close>

fun truthy :: "json \<Rightarrow> bool" where
  "truthy JNull = False"
| "truthy (JBool b) = b"
| "truthy (JNum n) = (n \<noteq> 0)"
| "truthy (JStr s) = (s \<noteq> [])"
| "truthy (JArr xs) = (xs \<noteq> [])"
| "truthy (JObj kvs) = (kvs \<noteq> [])"

text \<open>\<^verbatim>\<open>x.get(k, d)\<close>: only a dictionary has the method.\<close>

fun py_get :: "json \<Rightarrow> string \<Rightarrow> json \<Rightarrow> py_error + json" where
  "py_get (JObj kvs) k d = Inr (case map_of kvs k of Some v \<Rightarrow> v | None \<Rightarrow> d)"
| "py_get _ k d = Inl AttributeError"

text \<open>A chain \<^verbatim>\<open>x.get(k1, {}).get(k2, {}). ... .get(kn, d)\<close>: every default but the last
  is the empty dictionary.\<close>

fun get_path :: "json \<Rightarrow> string list \<Rightarrow> json \<Rightarrow> py_error + json" where
  "get_path x [] d = Inr x"
| "get_path x [k] d = py_get x k d"
| "get_path x (k # k' # ks) d =
     (case py_get x k (JObj []) of Inl e \<Rightarrow> Inl e | Inr y \<Rightarrow> get_path y (k' # ks) d)"

text \<open>A value used as a number in arithmetic or in a comparison with a number: a
  \<^verbatim>\<open>bool\<close> counts as 0 or 1, anything else that is not a number raises \<^verbatim>\<open>TypeError\<close>.\<close>

fun num_of :: "json \<Rightarrow> py_error + real" where
  "num_of (JNum n) = Inr n"
| "num_of (JBool b) = Inr (if b then 1 else 0)"
| "num_of _ = Inl TypeError"

fun nums_of :: "json list \<Rightarrow> py_error + real list" where
  "nums_of [] = Inr []"
| "nums_of (v # vs) =
     (case num_of v of Inl e \<Rightarrow> Inl e
      | Inr n \<Rightarrow> (case nums_of vs of Inl e \<Rightarrow> Inl e | Inr ns \<Rightarrow> Inr (n # ns)))"

text \<open>
  An \<^verbatim>\<open>int\<close> has no bound, a \<^verbatim>\<open>float\<close> is a double: an \<^verbatim>\<open>int\<close> that meets a \<^verbatim>\<open>float\<close> in
  arithmetic, is formatted as one or is divided by an \<^verbatim>\<open>int\<close> is converted, and the
  conversion raises \<^verbatim>\<open>OverflowError\<close> from \<open>float_limit\<close> on, the first magnitude that no
  finite double is nearest to. A \<^verbatim>\<open>float\<close> that grows beyond the doubles becomes infinite
  without an exception. Python from version 3.11 on also refuses to read or to print an
  \<^verbatim>\<open>int\<close> of more than 4300 digits; the model has no such limit.
\<close>

definition float_limit :: real where
  "float_limit = 2 ^ 1024 - 2 ^ 970"

definition py_float :: "real \<Rightarrow> py_error + real" where
  "py_float x = (if \<bar>x\<bar> < float_limit then Inr x else Inl OverflowError)"

definition is_integer :: "real \<Rightarrow> bool" where
  "is_integer x \<longleftrightarrow> of_int \<lfloor>x\<rfloor> = x"

text \<open>A value of the record (\<open>Inl\<close>) or a computed \<^verbatim>\<open>float\<close> (\<open>Inr\<close>) used in arithmetic with
  a \<^verbatim>\<open>float\<close>.\<close>

fun as_float :: "json + real \<Rightarrow> py_error + real" where
  "as_float (Inl v) =
     (case num_of v of Inl e \<Rightarrow> Inl e | Inr n \<Rightarrow> if is_integer n then py_float n else Inr n)"
| "as_float (Inr x) = Inr x"

text \<open>\<^verbatim>\<open>sum(xs)\<close>: the running total starts as the \<^verbatim>\<open>int\<close> 0 and is an \<^verbatim>\<open>int\<close> as long as
  only \<^verbatim>\<open>int\<close>s are added; the second component tells whether it is a \<^verbatim>\<open>float\<close>.\<close>

fun py_sum :: "json list \<Rightarrow> real \<times> bool \<Rightarrow> py_error + real \<times> bool" where
  "py_sum [] acc = Inr acc"
| "py_sum (v # vs) (running, is_float) =
     (case num_of v of
        Inl e \<Rightarrow> Inl e
      | Inr n \<Rightarrow>
          if \<not> is_float \<and> is_integer n then py_sum vs (running + n, False)
          else (case (if is_float then Inr running else py_float running) of
                  Inl e \<Rightarrow> Inl e
                | Inr a \<Rightarrow>
                    (case (if is_integer n then py_float n else Inr n) of
                       Inl e \<Rightarrow> Inl e
                     | Inr b \<Rightarrow> py_sum vs (a + b, True))))"

text \<open>\<^verbatim>\<open>x / n\<close> for an \<^verbatim>\<open>int\<close> \<open>n\<close> other than 0: the true division of two \<^verbatim>\<open>int\<close>s raises
  when the quotient is too large for a \<^verbatim>\<open>float\<close>.\<close>

fun py_div_int :: "real \<times> bool \<Rightarrow> real \<Rightarrow> py_error + real" where
  "py_div_int (x, is_float) n = (if is_float then Inr (x / n) else py_float (x / n))"

text \<open>\<^verbatim>\<open>statistics.mean(xs)\<close> of a non-empty list computes the exact mean; it is an \<^verbatim>\<open>int\<close>
  when all of \<open>xs\<close> are and it is integral, and is converted to a \<^verbatim>\<open>float\<close> otherwise.\<close>

definition mean :: "real list \<Rightarrow> real" where
  "mean xs = sum_list xs / real (length xs)"

definition py_mean :: "json list \<Rightarrow> py_error + real \<times> bool" where
  "py_mean vs =
     py_bind (nums_of vs) (\<lambda>ns.
       if list_all is_integer ns \<and> is_integer (mean ns) then Inr (mean ns, False)
       else py_bind (py_float (mean ns)) (\<lambda>m. Inr (m, True)))"

text \<open>\<^verbatim>\<open>len(x)\<close>.\<close>

fun py_len :: "json \<Rightarrow> py_error + nat" where
  "py_len (JStr s) = Inr (length s)"
| "py_len (JArr xs) = Inr (length xs)"
| "py_len (JObj kvs) = Inr (length kvs)"
| "py_len _ = Inl TypeError"

text \<open>\<^verbatim>\<open>a in b\<close> for two strings: \<open>a\<close> occurs in \<open>b\<close> as a contiguous piece.\<close>

fun is_substring :: "string \<Rightarrow> string \<Rightarrow> bool" where
  "is_substring needle [] = (needle = [])"
| "is_substring needle (c # cs) =
     (take (length needle) (c # cs) = needle \<or> is_substring needle cs)"

text \<open>\<^verbatim>\<open>k in x\<close> for a string \<open>k\<close>: a key of a dictionary, an element of a list, a piece
  of a string; other values are not iterable.\<close>

fun py_in :: "string \<Rightarrow> json \<Rightarrow> py_error + bool" where
  "py_in k (JObj kvs) = Inr (k \<in> set (map fst kvs))"
| "py_in k (JArr xs) = Inr (JStr k \<in> set xs)"
| "py_in k (JStr s) = Inr (is_substring k s)"
| "py_in k _ = Inl TypeError"

text \<open>\<^verbatim>\<open>x[k]\<close> for a string \<open>k\<close>.\<close>

fun py_item :: "json \<Rightarrow> string \<Rightarrow> py_error + json" where
  "py_item (JObj kvs) k = (case map_of kvs k of Some v \<Rightarrow> Inr v | None \<Rightarrow> Inl KeyError)"
| "py_item _ k = Inl TypeError"

text \<open>\<^verbatim>\<open>x[0]\<close>. The keys of a dictionary read from JSON are strings, so 0 is never one.\<close>

fun py_first :: "json \<Rightarrow> py_error + json" where
  "py_first (JArr (x # xs)) = Inr x"
| "py_first (JArr []) = Inl IndexError"
| "py_first (JStr (c # cs)) = Inr (JStr [c])"
| "py_first (JStr []) = Inl IndexError"
| "py_first (JObj kvs) = Inl KeyError"
| "py_first _ = Inl TypeError"

text \<open>\<^verbatim>\<open>x * n\<close> for an \<^verbatim>\<open>int\<close> \<open>n\<close>: a number is multiplied, a string or a list is
  repeated.\<close>

fun py_mul :: "json \<Rightarrow> nat \<Rightarrow> py_error + json" where
  "py_mul (JNum x) n = Inr (JNum (x * real n))"
| "py_mul (JBool b) n = Inr (JNum ((if b then 1 else 0) * real n))"
| "py_mul (JStr s) n = Inr (JStr (concat (replicate n s)))"
| "py_mul (JArr xs) n = Inr (JArr (concat (replicate n xs)))"
| "py_mul _ n = Inl TypeError"

text \<open>\<^verbatim>\<open>round(x, 1)\<close> rounds to the nearest multiple of one tenth, a tie to the even
  neighbour; on an \<^verbatim>\<open>int\<close> it is the identity, as here.\<close>

definition round_half_even :: "real \<Rightarrow> int" where
  "round_half_even x =
     (let f = \<lfloor>x\<rfloor>; d = x - of_int f
      in if d < 1 / 2 then f else if 1 / 2 < d then f + 1 else if even f then f else f + 1)"

definition py_round1 :: "real \<Rightarrow> real" where
  "py_round1 x = of_int (round_half_even (x * 10)) / 10"

fun py_round1_val :: "json \<Rightarrow> py_error + real" where
  "py_round1_val (JNum x) = Inr (py_round1 x)"
| "py_round1_val (JBool b) = Inr (if b then 1 else 0)"
| "py_round1_val _ = Inl TypeError"

text \<open>The value formatted by \<^verbatim>\<open>{x:.1f}\<close>: an \<^verbatim>\<open>int\<close> is converted to a \<^verbatim>\<open>float\<close>, a
  string has no such format (\<^verbatim>\<open>ValueError\<close>), the other non-numbers raise \<^verbatim>\<open>TypeError\<close>.\<close>

fun py_fix1 :: "json \<Rightarrow> py_error + real" where
  "py_fix1 (JNum x) = (if is_integer x then py_float x else Inr x)"
| "py_fix1 (JBool b) = Inr (if b then 1 else 0)"
| "py_fix1 (JStr s) = Inl ValueError"
| "py_fix1 _ = Inl TypeError"

text \<open>\<^verbatim>\<open>sep.join(xs)\<close> and \<^verbatim>\<open>s.replace('_', ' ')\<close>.\<close>

fun py_join :: "string \<Rightarrow> string list \<Rightarrow> string" where
  "py_join sep [] = []"
| "py_join sep [x] = x"
| "py_join sep (x # y # ys) = x @ sep @ py_join sep (y # ys)"

definition replace_underscore :: "string \<Rightarrow> string" where
  "replace_underscore s = map (\<lambda>c. if c = CHR ''_'' then CHR '' '' else c) s"

text \<open>\<^verbatim>\<open>s.lower()\<close>: the capital letters below code point 256 are A to Z and the
  accented capitals 192 to 222 without the multiplication sign 215; each has its small
  letter 32 places on. Other characters are kept.\<close>

definition lower_char :: "char \<Rightarrow> char" where
  "lower_char c =
     (let n = (of_char c :: nat)
      in if (65 \<le> n \<and> n \<le> 90) \<or> (192 \<le> n \<and> n \<le> 222 \<and> n \<noteq> 215) then char_of (n + 32)
         else c)"

definition py_lower :: "string \<Rightarrow> string" where
  "py_lower s = map lower_char s"

fun py_lower_val :: "json \<Rightarrow> py_error + string" where
  "py_lower_val (JStr s) = Inr (py_lower s)"
| "py_lower_val _ = Inl AttributeError"

text \<open>The strings of \<^verbatim>\<open>x[:3]\<close> handed to \<^verbatim>\<open>', '.join\<close>: the first three elements of a
  list, which must all be strings, or the first three characters of a string. A
  dictionary cannot be sliced (\<^verbatim>\<open>TypeError\<close> up to Python 3.11, \<^verbatim>\<open>KeyError\<close> after).\<close>

fun strs_of :: "json list \<Rightarrow> py_error + string list" where
  "strs_of [] = Inr []"
| "strs_of (JStr s # vs) = (case strs_of vs of Inl e \<Rightarrow> Inl e | Inr ss \<Rightarrow> Inr (s # ss))"
| "strs_of (_ # vs) = Inl TypeError"

fun first3_strs :: "json \<Rightarrow> py_error + string list" where
  "first3_strs (JArr xs) = strs_of (take 3 xs)"
| "first3_strs (JStr s) = Inr (map (\<lambda>c. [c]) (take 3 s))"
| "first3_strs _ = Inl TypeError"

section \<open>Category scores\<close>

text \<open>
  A category score is \<^verbatim>\<open>{'score': ..., 'details': ...}\<close>; \<open>None\<close> is the score
  \<^verbatim>\<open>None\<close>. The details are kept as the pieces of the f-string that builds them:
  literal text, a number under \<^verbatim>\<open>{x:.1f}\<close>, a computed number under \<^verbatim>\<open>{x}\<close>, and a
  value of the record under \<^verbatim>\<open>{x}\<close>. The rendering of a number into digits is not
  modelled.
\<close>

datatype piece = Lit string | Fix1 real | Num real | Val json

record category_score =
  score :: "real option"
  details :: "piece list"

subsection \<open>Academic performance\<close>

datatype level = Vmbo | Havo | Vwo

fun level_key :: "level \<Rightarrow> string" where
  "level_key Vmbo = ''vmbo''"
| "level_key Havo = ''havo''"
| "level_key Vwo = ''vwo''"

fun level_weights :: "level \<Rightarrow> real" where
  "level_weights Vmbo = 7 / 10"
| "level_weights Havo = 1"
| "level_weights Vwo = 3 / 2"

text \<open>The loop over the three levels, with its three accumulators \<^verbatim>\<open>level_data\<close>,
  \<^verbatim>\<open>five_year_avgs\<close> and \<^verbatim>\<open>candidate_counts\<close>.\<close>

type_synonym level_acc = "(level \<times> json) list \<times> json list \<times> json list"

fun collect_levels :: "json \<Rightarrow> level list \<Rightarrow> level_acc \<Rightarrow> py_error + level_acc" where
  "collect_levels exam_scores [] acc = Inr acc"
| "collect_levels exam_scores (l # ls) (level_data, five_year_avgs, candidate_counts) =
     (case py_in (level_key l) exam_scores of
        Inl e \<Rightarrow> Inl e
      | Inr False \<Rightarrow> collect_levels exam_scores ls (level_data, five_year_avgs, candidate_counts)
      | Inr True \<Rightarrow>
          (case py_bind (py_item exam_scores (level_key l)) (\<lambda>lv.
                  py_bind (py_get lv ''pass_rate_2024_2025'' JNull) (\<lambda>rate.
                  py_bind (py_get lv ''average_pass_rate_5yr'' JNull) (\<lambda>avg_5yr.
                  py_bind (py_get lv ''candidates_2024_2025'' JNull) (\<lambda>candidates.
                    Inr (rate, avg_5yr, candidates))))) of
             Inl e \<Rightarrow> Inl e
           | Inr (rate, avg_5yr, candidates) \<Rightarrow>
               collect_levels exam_scores ls
                 (if truthy rate then level_data @ [(l, rate)] else level_data,
                  if truthy avg_5yr then five_year_avgs @ [avg_5yr] else five_year_avgs,
                  if truthy candidates then candidate_counts @ [candidates]
                  else candidate_counts)))"

text \<open>\<^verbatim>\<open>sum(rate * level_weights[level] for level, rate in level_data.items())\<close>: the
  weights are \<^verbatim>\<open>float\<close>s.\<close>

fun weighted_rates :: "(level \<times> json) list \<Rightarrow> py_error + real" where
  "weighted_rates [] = Inr 0"
| "weighted_rates ((l, rate) # rest) =
     (case as_float (Inl rate) of Inl e \<Rightarrow> Inl e
      | Inr r \<Rightarrow> (case weighted_rates rest of Inl e \<Rightarrow> Inl e
                 | Inr s \<Rightarrow> Inr (r * level_weights l + s)))"

text \<open>
  With a single level the source takes the rate as it is and uses it in arithmetic only
  later: in \<^verbatim>\<open>current_rate * 0.7\<close> when there is a five-year average, and otherwise in
  \<^verbatim>\<open>final_rate + reliability_bonus\<close>, after the candidates have been summed. The steps
  are in the order of the source, so that the first exception is the one Python raises.
\<close>

definition calculate_academic_score :: "json \<Rightarrow> py_error + category_score" where
  "calculate_academic_score school =
     py_bind (get_path school [''academic_performance'', ''exam_scores''] (JObj [])) (\<lambda>exam_scores.
     if \<not> truthy exam_scores
     then Inr \<lparr>score = None, details = [Lit ''No exam data available'']\<rparr>
     else
     py_bind (collect_levels exam_scores [Vmbo, Havo, Vwo] ([], [], []))
       (\<lambda>(level_data, five_year_avgs, candidate_counts).
     if level_data = []
     then Inr \<lparr>score = None, details = [Lit ''No pass rate data'']\<rparr>
     else
     py_bind (if length level_data = 1 then Inr (Inl (snd (hd level_data)))
              else py_bind (weighted_rates level_data) (\<lambda>weighted_sum.
                   Inr (Inr (weighted_sum
                             / sum_list (map (\<lambda>(l, rate). level_weights l) level_data)))))
       (\<lambda>current_rate.
     py_bind (if five_year_avgs \<noteq> []
              then py_bind (py_mean five_year_avgs) (\<lambda>(avg_rate, avg_is_float).
                   py_bind (as_float current_rate) (\<lambda>c.
                   py_bind (if avg_is_float then Inr avg_rate else py_float avg_rate) (\<lambda>a.
                     Inr (Inr (c * (7 / 10) + a * (3 / 10))))))
              else Inr current_rate)
       (\<lambda>final_rate.
     py_bind (py_sum candidate_counts (0, False)) (\<lambda>total_candidates.
     py_bind (py_div_int total_candidates 500) (\<lambda>ratio.
     py_bind (as_float final_rate) (\<lambda>rate.
       let reliability_bonus = min (ratio * 5) 5;
           sc = min (rate + reliability_bonus) 100
       in Inr \<lparr>score = Some (py_round1 sc),
               details = [Fix1 rate, Lit ''% pass rate, '', Num (fst total_candidates),
                          Lit '' candidates'']\<rparr>)))))))"

subsection \<open>Proximity\<close>

definition calculate_proximity_score :: "json \<Rightarrow> py_error + category_score" where
  "calculate_proximity_score school =
     py_bind (get_path school [''location'', ''bike_accessibility''] (JObj [])) (\<lambda>bike.
     py_bind (get_path school [''location'', ''public_transport'', ''commute_from_home'']
                (JObj [])) (\<lambda>transit.
     py_bind (py_get bike ''duration_minutes'' JNull) (\<lambda>bike_mins.
     py_bind (py_get transit ''duration_minutes'' JNull) (\<lambda>transit_mins.
     if \<not> truthy bike_mins \<and> \<not> truthy transit_mins
     then Inr \<lparr>score = None, details = [Lit ''No commute data'']\<rparr>
     else
       let primary_mins = (if truthy bike_mins then bike_mins else transit_mins) in
       py_bind (num_of primary_mins) (\<lambda>m.
         let sc = (if m \<le> 10 then 100 - m * 1
                   else if m \<le> 30 then 90 - (m - 10) * 2
                   else max (50 - (m - 30) * 1) 0);
             method = (if truthy bike_mins then ''bike'' else ''transit'')
         in Inr \<lparr>score = Some (py_round1 sc),
                 details = [Val primary_mins, Lit '' mins by '', Lit method]\<rparr>)))))"

subsection \<open>Parent and student satisfaction\<close>

definition calculate_parent_satisfaction_score :: "json \<Rightarrow> py_error + category_score" where
  "calculate_parent_satisfaction_score school =
     py_bind (get_path school [''reviews_reputation'', ''parent_reviews''] (JArr [])) (\<lambda>reviews.
     if \<not> truthy reviews
     then Inr \<lparr>score = None, details = [Lit ''No parent reviews'']\<rparr>
     else
     py_bind (py_first reviews) (\<lambda>latest.
     py_bind (py_get latest ''overall_rating'' JNull) (\<lambda>rating.
     if \<not> truthy rating
     then Inr \<lparr>score = None, details = [Lit ''No rating available'']\<rparr>
     else
     py_bind (py_mul rating 10) (\<lambda>sc.
     py_bind (py_get latest ''would_recommend'' JNull) (\<lambda>recommend.
     py_bind (if truthy recommend
              then py_bind (py_fix1 recommend) (\<lambda>r.
                   Inr [Lit '', '', Fix1 r, Lit ''/10 recommend''])
              else Inr []) (\<lambda>recommend_text.
     py_bind (py_round1_val sc) (\<lambda>rounded.
     py_bind (py_fix1 rating) (\<lambda>r.
       Inr \<lparr>score = Some rounded,
            details = [Fix1 r, Lit ''/10 rating''] @ recommend_text\<rparr>))))))))"

definition calculate_student_satisfaction_score :: "json \<Rightarrow> py_error + category_score" where
  "calculate_student_satisfaction_score school =
     py_bind (get_path school [''reviews_reputation'', ''student_reviews''] (JArr [])) (\<lambda>reviews.
     if \<not> truthy reviews
     then Inr \<lparr>score = None, details = [Lit ''No student reviews'']\<rparr>
     else
     py_bind (py_first reviews) (\<lambda>latest.
     py_bind (py_get latest ''overall_rating'' JNull) (\<lambda>rating.
     if \<not> truthy rating
     then Inr \<lparr>score = None, details = [Lit ''No rating available'']\<rparr>
     else
     py_bind (py_mul rating 10) (\<lambda>sc.
     py_bind (py_get latest ''voice_matters'' JNull) (\<lambda>voice_matters.
     py_bind (if truthy voice_matters
              then py_bind (py_fix1 voice_matters) (\<lambda>v.
                   Inr [Lit '', '', Fix1 v, Lit ''/10 voice matters''])
              else Inr []) (\<lambda>voice_text.
     py_bind (py_round1_val sc) (\<lambda>rounded.
     py_bind (py_fix1 rating) (\<lambda>r.
       Inr \<lparr>score = Some rounded,
            details = [Fix1 r, Lit ''/10 rating''] @ voice_text\<rparr>))))))))"

subsection \<open>Facilities\<close>

definition calculate_facilities_score :: "json \<Rightarrow> py_error + category_score" where
  "calculate_facilities_score school =
     py_bind (py_get school ''facilities'' (JObj [])) (\<lambda>facilities.
     py_bind (get_path facilities [''technology'', ''description''] JNull) (\<lambda>description.
     py_bind (py_get facilities ''sports_facilities'' (JArr [])) (\<lambda>sports.
     py_bind (if truthy sports then py_bind (py_len sports) (\<lambda>n. Inr (0 < n)) else Inr False)
       (\<lambda>has_sports.
     py_bind (py_get facilities ''classrooms_labs_quality'' (JStr [])) (\<lambda>classrooms.
     py_bind (if truthy classrooms then py_bind (py_len classrooms) (\<lambda>n. Inr (50 < n))
              else Inr False)
       (\<lambda>long_text.
     py_bind (py_get facilities ''library'' (JObj [])) (\<lambda>library.
     py_bind (py_get facilities ''technology'' JNull) (\<lambda>technology.
       let sc = 50 + (if truthy description then 15 else 0) + (if has_sports then 15 else 0)
                   + (if long_text then 10 else 0) + (if truthy library then 10 else 0);
           details_parts = (if truthy technology then [''technology''] else [])
                         @ (if truthy sports then [''sports''] else [])
                         @ (if truthy classrooms then [''specialized classrooms''] else [])
       in Inr \<lparr>score = Some (py_round1 (min sc 100)),
               details = [Lit (if details_parts \<noteq> [] then py_join '', '' details_parts
                               else ''Basic facilities'')]\<rparr>))))))))"

subsection \<open>School size\<close>

definition preference_scores :: "(string \<times> (string \<times> real) list) list" where
  "preference_scores =
     [(''small'', [(''small'', 100), (''medium'', 70), (''large'', 50), (''very_large'', 30)]),
      (''medium'', [(''small'', 70), (''medium'', 100), (''large'', 80), (''very_large'', 60)]),
      (''large'', [(''small'', 50), (''medium'', 80), (''large'', 100), (''very_large'', 90)]),
      (''any'', [(''small'', 80), (''medium'', 80), (''large'', 80), (''very_large'', 80)])]"

definition calculate_school_size_score :: "json \<Rightarrow> string \<Rightarrow> py_error + category_score" where
  "calculate_school_size_score school preferred_size =
     py_bind (get_path school [''basic_info'', ''enrollment'', ''total''] JNull) (\<lambda>enrollment.
     if \<not> truthy enrollment
     then Inr \<lparr>score = None, details = [Lit ''No enrollment data'']\<rparr>
     else
     py_bind (num_of enrollment) (\<lambda>e.
     let size_category = (if e > 1500 then ''very_large''
                          else if e > 1000 then ''large''
                          else if e \<ge> 500 then ''medium'' else ''small'')
     in
     py_bind (case map_of preference_scores ''any'' of
                Some row \<Rightarrow> Inr row | None \<Rightarrow> Inl KeyError) (\<lambda>any_row.
       let row = (case map_of preference_scores preferred_size of
                    Some r \<Rightarrow> r | None \<Rightarrow> any_row);
           sc = (case map_of row size_category of Some v \<Rightarrow> v | None \<Rightarrow> 80)
       in Inr \<lparr>score = Some sc,
               details = [Val enrollment, Lit '' students ('',
                          Lit (replace_underscore size_category), Lit '')'']\<rparr>)))"

subsection \<open>Extracurriculars and special programs\<close>

definition calculate_extracurriculars_score :: "json \<Rightarrow> py_error + category_score" where
  "calculate_extracurriculars_score school =
     py_bind (get_path school [''academic_performance'', ''extracurricular_activities'']
                (JArr [])) (\<lambda>activities.
     py_bind (get_path school [''student_support'', ''after_school_programs''] (JArr []))
       (\<lambda>after_school.
     py_bind (py_len activities) (\<lambda>n1.
     py_bind (py_len after_school) (\<lambda>n2.
       let total_activities = n1 + n2 in
       if total_activities = 0
       then Inr \<lparr>score = Some 50, details = [Lit ''No data on activities'']\<rparr>
       else Inr \<lparr>score = Some (min (50 + real total_activities * 5) 100),
                 details = [Num (real total_activities), Lit '' activities listed'']\<rparr>))))"

definition calculate_special_programs_score :: "json \<Rightarrow> py_error + category_score" where
  "calculate_special_programs_score school =
     py_bind (get_path school [''academic_performance'', ''special_programs''] (JArr []))
       (\<lambda>programs.
     if \<not> truthy programs
     then Inr \<lparr>score = Some 50, details = [Lit ''No special programs listed'']\<rparr>
     else
     py_bind (py_len programs) (\<lambda>n.
     py_bind (first3_strs programs) (\<lambda>names.
       Inr \<lparr>score = Some (min (50 + real n * 10) 100),
            details = Lit (py_join '', '' names)
                      # (if 3 < n then [Lit '', +'', Num (real (n - 3)), Lit '' more'']
                         else [])\<rparr>)))"

section \<open>Composite score\<close>

text \<open>The weights are percentages that the caller chooses; a weight too large for a
  \<^verbatim>\<open>float\<close> is outside the model.\<close>

definition DEFAULT_WEIGHTS :: "(string \<times> real) list" where
  "DEFAULT_WEIGHTS =
     [(''academic_performance'', 30), (''proximity'', 20), (''parent_satisfaction'', 15),
      (''student_satisfaction'', 10), (''facilities'', 10), (''school_size'', 5),
      (''extracurriculars'', 5), (''special_programs'', 5)]"

text \<open>The loop \<^verbatim>\<open>for category, weight in weights.items()\<close> with its two running sums.
  A category score is a non-empty dictionary, so \<^verbatim>\<open>if score_data\<close> only asks whether the
  category is one of the eight.\<close>

fun accumulate ::
  "(string \<times> category_score) list \<Rightarrow> (string \<times> real) list \<Rightarrow> real \<times> real \<Rightarrow> real \<times> real" where
  "accumulate scores [] acc = acc"
| "accumulate scores ((category, weight) # rest) (weighted_sum, total_weight) =
     (case map_of scores category of
        None \<Rightarrow> accumulate scores rest (weighted_sum, total_weight)
      | Some score_data \<Rightarrow>
          (case score score_data of
             None \<Rightarrow> accumulate scores rest (weighted_sum, total_weight)
           | Some s \<Rightarrow> accumulate scores rest (weighted_sum + s * weight, total_weight + weight)))"

record composite =
  composite_score :: "real option"
  category_scores :: "(string \<times> category_score) list"
  weights_used :: "(string \<times> real) list"
  total_weight :: real

definition calculate_composite_score ::
  "json \<Rightarrow> (string \<times> real) list option \<Rightarrow> (string \<times> string) list option
     \<Rightarrow> py_error + composite" where
  "calculate_composite_score school weights preferences =
     (let weights = (case weights of None \<Rightarrow> DEFAULT_WEIGHTS | Some w \<Rightarrow> w);
          preferences = (case preferences of None \<Rightarrow> [] | Some p \<Rightarrow> p);
          preferred_size = (case map_of preferences ''school_size'' of
                              Some p \<Rightarrow> p | None \<Rightarrow> ''medium'')
      in
      py_bind (calculate_academic_score school) (\<lambda>academic.
      py_bind (calculate_proximity_score school) (\<lambda>proximity.
      py_bind (calculate_parent_satisfaction_score school) (\<lambda>parent.
      py_bind (calculate_student_satisfaction_score school) (\<lambda>student.
      py_bind (calculate_facilities_score school) (\<lambda>facilities.
      py_bind (calculate_school_size_score school preferred_size) (\<lambda>school_size.
      py_bind (calculate_extracurriculars_score school) (\<lambda>extracurriculars.
      py_bind (calculate_special_programs_score school) (\<lambda>special_programs.
        let scores = [(''academic_performance'', academic), (''proximity'', proximity),
                      (''parent_satisfaction'', parent), (''student_satisfaction'', student),
                      (''facilities'', facilities), (''school_size'', school_size),
                      (''extracurriculars'', extracurriculars),
                      (''special_programs'', special_programs)];
            (weighted_sum, total_weight) = accumulate scores weights (0, 0);
            composite = (if total_weight > 0 then Some (weighted_sum / total_weight) else None)
        in Inr \<lparr>composite_score =
                  (case composite of
                     None \<Rightarrow> None
                   | Some c \<Rightarrow> if c \<noteq> 0 then Some (py_round1 c) else None),
                category_scores = scores,
                weights_used = weights,
                total_weight = total_weight\<rparr>)))))))))"

section \<open>Filtering and ranking\<close>

text \<open>The filters are a dictionary with up to four keys, each with a value of its own
  type; \<open>None\<close> is a key that is not there.\<close>

record filters =
  school_type :: "string list option"
  religious_affiliation :: "string option"
  max_commute_minutes :: "real option"
  city :: "string option"

text \<open>\<^verbatim>\<open>any(t in school_types for t in filter_types)\<close> stops at the first hit.\<close>

fun py_any_in :: "string list \<Rightarrow> json \<Rightarrow> py_error + bool" where
  "py_any_in [] c = Inr False"
| "py_any_in (t # ts) c =
     (case py_in t c of Inl e \<Rightarrow> Inl e | Inr True \<Rightarrow> Inr True | Inr False \<Rightarrow> py_any_in ts c)"

definition passes_filters :: "json \<Rightarrow> filters \<Rightarrow> py_error + bool" where
  "passes_filters school fs =
     py_bind (case school_type fs of
                None \<Rightarrow> Inr True
              | Some ts \<Rightarrow>
                  if ts = [] then Inr True
                  else py_bind (get_path school [''basic_info'', ''type''] (JArr []))
                         (\<lambda>school_types. py_any_in ts school_types)) (\<lambda>type_ok.
     if \<not> type_ok then Inr False
     else
     py_bind (case religious_affiliation fs of
                None \<Rightarrow> Inr True
              | Some ra \<Rightarrow>
                  if ra = [] then Inr True
                  else py_bind (get_path school [''basic_info'', ''religious_affiliation'']
                                  (JStr [])) (\<lambda>affiliation.
                       py_bind (py_lower_val affiliation) (\<lambda>a.
                         Inr (is_substring (py_lower ra) a)))) (\<lambda>affiliation_ok.
     if \<not> affiliation_ok then Inr False
     else
     py_bind (case max_commute_minutes fs of
                None \<Rightarrow> Inr True
              | Some mx \<Rightarrow>
                  py_bind (get_path school
                             [''location'', ''bike_accessibility'', ''duration_minutes''] JNull)
                    (\<lambda>bike_mins.
                       if truthy bike_mins
                       then py_bind (num_of bike_mins) (\<lambda>b. Inr (\<not> b > mx))
                       else Inr True)) (\<lambda>commute_ok.
     if \<not> commute_ok then Inr False
     else
     py_bind (case city fs of
                None \<Rightarrow> Inr True
              | Some c \<Rightarrow>
                  if c = [] then Inr True
                  else py_bind (get_path school [''basic_info'', ''city''] (JStr [])) (\<lambda>school_city.
                       py_bind (py_lower_val school_city) (\<lambda>sc.
                         Inr (\<not> sc \<noteq> py_lower c)))) (\<lambda>city_ok.
     if \<not> city_ok then Inr False else Inr True))))"

record ranked =
  school :: json
  score_data :: composite







section \<open>Reference definitions\<close>

text \<open>
  The definitions of this section are not part of the program. They restate, in closed
  form, what the properties below compare the program with.
\<close>

subsection \<open>Proximity\<close>

text \<open>The piecewise-linear score for a commute of \<open>m\<close> minutes.\<close>

definition proximity_formula :: "real \<Rightarrow> real" where
  "proximity_formula m =
     (if m \<le> 10 then 100 - m
      else if m \<le> 30 then 90 - 2 * (m - 10)
      else max (50 - (m - 30)) 0)"

subsection \<open>School size\<close>

datatype bucket = Small | Medium | Large | Very_large

text \<open>The buckets with the boundaries the program draws: 1000 is still medium.\<close>

definition size_bucket :: "real \<Rightarrow> bucket" where
  "size_bucket e =
     (if e < 500 then Small else if e \<le> 1000 then Medium
      else if e \<le> 1500 then Large else Very_large)"

text \<open>The buckets as the specification words them: small below 500, medium 500 to 999,
  large 1000 to 1500, very large above 1500.\<close>

definition size_bucket_stated :: "real \<Rightarrow> bucket" where
  "size_bucket_stated e =
     (if e < 500 then Small else if e < 1000 then Medium
      else if e \<le> 1500 then Large else Very_large)"

text \<open>The preference-versus-bucket table; a preference that is not a row of the table
  reads the row \<open>any\<close>.\<close>

definition size_table :: "string \<Rightarrow> bucket \<Rightarrow> real" where
  "size_table p b =
     (if p = ''small'' then (case b of Small \<Rightarrow> 100 | Medium \<Rightarrow> 70 | Large \<Rightarrow> 50
                             | Very_large \<Rightarrow> 30)
      else if p = ''medium'' then (case b of Small \<Rightarrow> 70 | Medium \<Rightarrow> 100 | Large \<Rightarrow> 80
                                   | Very_large \<Rightarrow> 60)
      else if p = ''large'' then (case b of Small \<Rightarrow> 50 | Medium \<Rightarrow> 80 | Large \<Rightarrow> 100
                                  | Very_large \<Rightarrow> 90)
      else 80)"

subsection \<open>Composite score\<close>

text \<open>The score and weight of every category that is in the weights and has a score.\<close>

definition contributing ::
  "(string \<times> category_score) list \<Rightarrow> (string \<times> real) list \<Rightarrow> (real \<times> real) list" where
  "contributing scores weights =
     List.map_filter
       (\<lambda>(c, w). case map_of scores c of
                    None \<Rightarrow> None
                  | Some sd \<Rightarrow> (case score sd of None \<Rightarrow> None | Some x \<Rightarrow> Some (x, w)))
       weights"

definition weighted_total :: "(real \<times> real) list \<Rightarrow> real" where
  "weighted_total cs = sum_list (map (\<lambda>(x, w). x * w) cs)"

definition weight_total :: "(real \<times> real) list \<Rightarrow> real" where
  "weight_total cs = sum_list (map snd cs)"

definition preferred_size_of :: "(string \<times> string) list option \<Rightarrow> string" where
  "preferred_size_of ps =
     (case ps of
        None \<Rightarrow> ''medium''
      | Some p \<Rightarrow> (case map_of p ''school_size'' of None \<Rightarrow> ''medium'' | Some z \<Rightarrow> z))"

subsection \<open>Well-formed school records\<close>

text \<open>
  A record is well formed when it has the two required fields, the identifier and the
  name, and every other field it has is of the type the data model gives it. Any
  optional field may be absent, and a numeric field may also hold \<^verbatim>\<open>null\<close>, as the
  enrichment scripts write it for a number they do not know. The data model puts no
  bound on a number.
\<close>

definition opt_field :: "(string \<times> json) list \<Rightarrow> string \<Rightarrow> (json \<Rightarrow> bool) \<Rightarrow> bool" where
  "opt_field kvs k P = (case map_of kvs k of None \<Rightarrow> True | Some v \<Rightarrow> P v)"

fun num_or_null :: "json \<Rightarrow> bool" where
  "num_or_null JNull = True"
| "num_or_null (JNum n) = True"
| "num_or_null _ = False"

fun is_str :: "json \<Rightarrow> bool" where
  "is_str (JStr s) = True"
| "is_str _ = False"

fun obj_with :: "((string \<times> json) list \<Rightarrow> bool) \<Rightarrow> json \<Rightarrow> bool" where
  "obj_with P (JObj kvs) = P kvs"
| "obj_with P _ = False"

fun list_with :: "(json \<Rightarrow> bool) \<Rightarrow> json \<Rightarrow> bool" where
  "list_with P (JArr xs) = list_all P xs"
| "list_with P _ = False"

definition wf_level_fields :: "(string \<times> json) list \<Rightarrow> bool" where
  "wf_level_fields lv \<longleftrightarrow>
     opt_field lv ''pass_rate_2024_2025'' num_or_null
     \<and> opt_field lv ''average_pass_rate_5yr'' num_or_null
     \<and> opt_field lv ''candidates_2024_2025'' num_or_null"

definition wf_exam_scores :: "(string \<times> json) list \<Rightarrow> bool" where
  "wf_exam_scores es \<longleftrightarrow>
     list_all (\<lambda>l. opt_field es (level_key l) (obj_with wf_level_fields)) [Vmbo, Havo, Vwo]"

definition wf_review_fields :: "(string \<times> json) list \<Rightarrow> bool" where
  "wf_review_fields r \<longleftrightarrow>
     opt_field r ''overall_rating'' num_or_null
     \<and> opt_field r ''would_recommend'' num_or_null
     \<and> opt_field r ''voice_matters'' num_or_null"

definition wf_basic_info :: "(string \<times> json) list \<Rightarrow> bool" where
  "wf_basic_info bi \<longleftrightarrow>
     (case map_of bi ''name'' of Some (JStr n) \<Rightarrow> True | _ \<Rightarrow> False)
     \<and> opt_field bi ''city'' is_str
     \<and> opt_field bi ''type'' (list_with is_str)
     \<and> opt_field bi ''religious_affiliation'' is_str
     \<and> opt_field bi ''enrollment'' (obj_with (\<lambda>e. opt_field e ''total'' num_or_null))"

definition wf_academic :: "(string \<times> json) list \<Rightarrow> bool" where
  "wf_academic ap \<longleftrightarrow>
     opt_field ap ''exam_scores'' (obj_with wf_exam_scores)
     \<and> opt_field ap ''special_programs'' (list_with is_str)
     \<and> opt_field ap ''extracurricular_activities'' (list_with is_str)"

definition wf_location :: "(string \<times> json) list \<Rightarrow> bool" where
  "wf_location loc \<longleftrightarrow>
     opt_field loc ''bike_accessibility''
       (obj_with (\<lambda>b. opt_field b ''duration_minutes'' num_or_null))
     \<and> opt_field loc ''public_transport''
         (obj_with (\<lambda>pt. opt_field pt ''commute_from_home''
            (obj_with (\<lambda>c. opt_field c ''duration_minutes'' num_or_null))))"

definition wf_facilities :: "(string \<times> json) list \<Rightarrow> bool" where
  "wf_facilities fa \<longleftrightarrow>
     opt_field fa ''technology'' (obj_with (\<lambda>t. True))
     \<and> opt_field fa ''sports_facilities'' (list_with (\<lambda>x. True))
     \<and> opt_field fa ''classrooms_labs_quality'' is_str"

definition wf_support :: "(string \<times> json) list \<Rightarrow> bool" where
  "wf_support ss \<longleftrightarrow> opt_field ss ''after_school_programs'' (list_with (\<lambda>x. True))"

definition wf_reviews :: "(string \<times> json) list \<Rightarrow> bool" where
  "wf_reviews rr \<longleftrightarrow>
     opt_field rr ''parent_reviews'' (list_with (obj_with wf_review_fields))
     \<and> opt_field rr ''student_reviews'' (list_with (obj_with wf_review_fields))"

definition wf_school :: "json \<Rightarrow> bool" where
  "wf_school s \<longleftrightarrow>
     (case s of
        JObj kvs \<Rightarrow>
          (case map_of kvs ''id'' of Some (JStr i) \<Rightarrow> True | _ \<Rightarrow> False)
          \<and> (case map_of kvs ''basic_info'' of Some (JObj bi) \<Rightarrow> wf_basic_info bi | _ \<Rightarrow> False)
          \<and> opt_field kvs ''academic_performance'' (obj_with wf_academic)
          \<and> opt_field kvs ''location'' (obj_with wf_location)
          \<and> opt_field kvs ''facilities'' (obj_with wf_facilities)
          \<and> opt_field kvs ''student_support'' (obj_with wf_support)
          \<and> opt_field kvs ''reviews_reputation'' (obj_with wf_reviews)
      | _ \<Rightarrow> False)"

text \<open>Every number in a value is of a magnitude below \<open>2 ^ 1000\<close>, so that it and the sum
  of any three such numbers fit a \<^verbatim>\<open>float\<close>.\<close>

fun small :: "json \<Rightarrow> bool" where
  "small (JNum n) \<longleftrightarrow> \<bar>n\<bar> < 2 ^ 1000"
| "small (JArr xs) \<longleftrightarrow> list_all small xs"
| "small (JObj kvs) \<longleftrightarrow> list_all (\<lambda>kv. small (snd kv)) kvs"
| "small v \<longleftrightarrow> True"

subsection \<open>What the scorers keep of a record\<close>

text \<open>The academic scorer keeps the number under a field of an exam level when it is
  there and is not zero.\<close>

definition recorded_field :: "(string \<times> json) list \<Rightarrow> string \<Rightarrow> real option" where
  "recorded_field lv f =
     (case map_of lv f of Some (JNum n) \<Rightarrow> if n \<noteq> 0 then Some n else None | _ \<Rightarrow> None)"

definition recorded :: "(string \<times> json) list \<Rightarrow> string \<Rightarrow> level \<Rightarrow> real option" where
  "recorded es f l =
     (case map_of es (level_key l) of Some (JObj lv) \<Rightarrow> recorded_field lv f | _ \<Rightarrow> None)"

text \<open>The pass rates with their levels, the five-year averages and the candidate counts
  that the scorer keeps, in the order vmbo, havo, vwo.\<close>

definition pass_rates :: "(string \<times> json) list \<Rightarrow> level list \<Rightarrow> (level \<times> real) list" where
  "pass_rates es ls =
     List.map_filter (\<lambda>l. map_option (Pair l) (recorded es ''pass_rate_2024_2025'' l)) ls"

definition five_year_averages :: "(string \<times> json) list \<Rightarrow> level list \<Rightarrow> real list" where
  "five_year_averages es ls = List.map_filter (recorded es ''average_pass_rate_5yr'') ls"

definition candidates :: "(string \<times> json) list \<Rightarrow> level list \<Rightarrow> real list" where
  "candidates es ls = List.map_filter (recorded es ''candidates_2024_2025'') ls"

text \<open>The value a record holds under a path, \<^verbatim>\<open>null\<close> when there is none.\<close>

definition lookup :: "json \<Rightarrow> string list \<Rightarrow> json" where
  "lookup s path = (case get_path s path JNull of Inr v \<Rightarrow> v | Inl e \<Rightarrow> JNull)"

text \<open>The scorers take a value that is \<^verbatim>\<open>null\<close> or zero for one that is not there: for
  them a school has a commute when a bike or a transit duration is there and not zero,
  an enrollment when the total is, and a rating when its first review of the kind has
  one.\<close>

definition has_commute :: "json \<Rightarrow> bool" where
  "has_commute s \<longleftrightarrow>
     truthy (lookup s [''location'', ''bike_accessibility'', ''duration_minutes''])
     \<or> truthy (lookup s [''location'', ''public_transport'', ''commute_from_home'',
                          ''duration_minutes''])"

definition has_enrollment :: "json \<Rightarrow> bool" where
  "has_enrollment s \<longleftrightarrow> truthy (lookup s [''basic_info'', ''enrollment'', ''total''])"

definition has_rating :: "json \<Rightarrow> string \<Rightarrow> bool" where
  "has_rating s key \<longleftrightarrow>
     (case lookup s [''reviews_reputation'', key] of
        JArr (JObj r # rest) \<Rightarrow>
          truthy (case map_of r ''overall_rating'' of Some v \<Rightarrow> v | None \<Rightarrow> JNull)
      | _ \<Rightarrow> False)"

subsection \<open>Missing data\<close>

text \<open>
  A field is missing from a record when the record has no value under its path, or has
  \<^verbatim>\<open>null\<close> there. A school lacks a commute when both durations are missing, an
  enrollment when the total is missing, a pass rate when it is missing at each of the
  three levels, and a rating when it has no review of the kind or the first one has no
  overall rating.
\<close>

definition missing :: "json \<Rightarrow> string list \<Rightarrow> bool" where
  "missing s path \<longleftrightarrow> lookup s path = JNull"

definition lacks_commute :: "json \<Rightarrow> bool" where
  "lacks_commute s \<longleftrightarrow>
     missing s [''location'', ''bike_accessibility'', ''duration_minutes'']
     \<and> missing s [''location'', ''public_transport'', ''commute_from_home'',
                    ''duration_minutes'']"

definition lacks_enrollment :: "json \<Rightarrow> bool" where
  "lacks_enrollment s \<longleftrightarrow> missing s [''basic_info'', ''enrollment'', ''total'']"

definition lacks_pass_rate :: "json \<Rightarrow> bool" where
  "lacks_pass_rate s \<longleftrightarrow>
     list_all (\<lambda>l. missing s [''academic_performance'', ''exam_scores'', level_key l,
                               ''pass_rate_2024_2025''])
       [Vmbo, Havo, Vwo]"

definition lacks_rating :: "json \<Rightarrow> string \<Rightarrow> bool" where
  "lacks_rating s key \<longleftrightarrow>
     (case lookup s [''reviews_reputation'', key] of
        JNull \<Rightarrow> True
      | JArr [] \<Rightarrow> True
      | JArr (JObj r # rest) \<Rightarrow>
          (case map_of r ''overall_rating'' of None \<Rightarrow> True | Some v \<Rightarrow> v = JNull)
      | _ \<Rightarrow> False)"

text \<open>A category has a score in a list of category scores.\<close>

definition has_score :: "(string \<times> category_score) list \<Rightarrow> string \<Rightarrow> bool" where
  "has_score scores c \<longleftrightarrow>
     (case map_of scores c of Some sd \<Rightarrow> score sd \<noteq> None | None \<Rightarrow> False)"

subsection \<open>Ranking\<close>




subsection \<open>Example records\<close>

text \<open>Sparse school records: the two required fields and the data of one category.\<close>

definition bike_school :: "real \<Rightarrow> json" where
  "bike_school m =
     JObj [(''id'', JStr ''s''), (''basic_info'', JObj [(''name'', JStr ''S'')]),
           (''location'',
            JObj [(''bike_accessibility'', JObj [(''duration_minutes'', JNum m)])])]"

definition enrollment_school :: "real \<Rightarrow> json" where
  "enrollment_school n =
     JObj [(''id'', JStr ''e''),
           (''basic_info'',
            JObj [(''name'', JStr ''E''), (''enrollment'', JObj [(''total'', JNum n)])])]"

definition zero_rating_school :: json where
  "zero_rating_school =
     JObj [(''id'', JStr ''z''), (''basic_info'', JObj [(''name'', JStr ''Z'')]),
           (''reviews_reputation'',
            JObj [(''parent_reviews'',
                   JArr [JObj [(''overall_rating'', JNum 0), (''would_recommend'', JNum 7)]]),
                  (''student_reviews'',
                   JArr [JObj [(''overall_rating'', JNum 0)],
                         JObj [(''overall_rating'', JNum 8)]])])]"

text \<open>Weights as the sliders of the application give them: every category is there,
  all but proximity at 0.\<close>

definition proximity_only_weights :: "(string \<times> real) list" where
  "proximity_only_weights =
     [(''academic_performance'', 0), (''proximity'', 40), (''parent_satisfaction'', 0),
      (''student_satisfaction'', 0), (''facilities'', 0), (''school_size'', 0),
      (''extracurriculars'', 0), (''special_programs'', 0)]"

text \<open>Filters with every key set.\<close>

definition all_filters :: filters where
  "all_filters =
     \<lparr>school_type = Some [''vwo''], religious_affiliation = Some ''Openbaar'',
      max_commute_minutes = Some 20, city = Some ''Amsterdam''\<rparr>"

text \<open>A record with nothing but the two required fields.\<close>

definition bare_school :: json where
  "bare_school = JObj [(''id'', JStr ''b''), (''basic_info'', JObj [(''name'', JStr ''B'')])]"

text \<open>A school with a bike duration and a transit duration.\<close>

definition bike_transit_school :: "real \<Rightarrow> real \<Rightarrow> json" where
  "bike_transit_school b t =
     JObj [(''id'', JStr ''c''), (''basic_info'', JObj [(''name'', JStr ''C'')]),
           (''location'',
            JObj [(''bike_accessibility'', JObj [(''duration_minutes'', JNum b)]),
                  (''public_transport'',
                   JObj [(''commute_from_home'', JObj [(''duration_minutes'', JNum t)])])])]"

text \<open>A school with the pass rates of two levels and nothing else in its exam scores.\<close>

definition havo_vwo_school :: "real \<Rightarrow> real \<Rightarrow> json" where
  "havo_vwo_school h v =
     JObj [(''id'', JStr ''h''), (''basic_info'', JObj [(''name'', JStr ''H'')]),
           (''academic_performance'',
            JObj [(''exam_scores'',
                   JObj [(''havo'', JObj [(''pass_rate_2024_2025'', JNum h)]),
                         (''vwo'', JObj [(''pass_rate_2024_2025'', JNum v)])])])]"

text \<open>A school with a vwo pass rate of 80 and \<open>n\<close> candidates.\<close>

definition candidates_school :: "real \<Rightarrow> json" where
  "candidates_school n =
     JObj [(''id'', JStr ''k''), (''basic_info'', JObj [(''name'', JStr ''K'')]),
           (''academic_performance'',
            JObj [(''exam_scores'',
                   JObj [(''vwo'', JObj [(''pass_rate_2024_2025'', JNum 80),
                                         (''candidates_2024_2025'', JNum n)])])])]"



section \<open>Basic lemmas\<close>

lemma py_bind_Inr [simp]: "py_bind (Inr x) f = f x"
  by (simp add: py_bind_def)

lemma py_bind_Inl [simp]: "py_bind (Inl e) f = Inl e"
  by (simp add: py_bind_def)

lemma get_path_snoc:
  "get_path x (ks @ [k]) d = py_bind (get_path x ks (JObj [])) (\<lambda>y. py_get y k d)"
proof (induction x ks "JObj []" rule: get_path.induct)
  case (1 x)
  show ?case by simp
next
  case (2 x k')
  show ?case by (simp add: py_bind_def split: sum.splits)
next
  case (3 x k' k'' ks)
  then show ?case by (simp add: py_bind_def split: sum.splits)
qed

lemma get_path_last:
  assumes "get_path x (ks @ [k]) d = Inr v"
  obtains y where "get_path x ks (JObj []) = Inr y" and "py_get y k d = Inr v"
  using assms unfolding get_path_snoc by (cases "get_path x ks (JObj [])") auto

lemma num_of_nonzero_truthy: "num_of v = Inr m \<Longrightarrow> m \<noteq> 0 \<Longrightarrow> truthy v"
  by (cases v) (auto split: if_splits)

subsection \<open>Rounding to one decimal\<close>

lemma round_half_even_mono:
  assumes xy: "x \<le> y"
  shows "round_half_even x \<le> round_half_even y"
proof -
  have fl: "\<lfloor>x\<rfloor> \<le> \<lfloor>y\<rfloor>" using xy by (rule floor_mono)
  have lo: "\<lfloor>z\<rfloor> \<le> round_half_even z" for z
    by (simp add: round_half_even_def Let_def)
  have hi: "round_half_even z \<le> \<lfloor>z\<rfloor> + 1" for z
    by (simp add: round_half_even_def Let_def)
  show ?thesis
  proof (cases "\<lfloor>x\<rfloor> = \<lfloor>y\<rfloor>")
    case True
    then show ?thesis using xy by (auto simp: round_half_even_def Let_def)
  next
    case False
    then have "\<lfloor>x\<rfloor> + 1 \<le> \<lfloor>y\<rfloor>" using fl by linarith
    then show ?thesis using lo[of y] hi[of x] by linarith
  qed
qed

lemma round_half_even_of_int [simp]: "round_half_even (of_int n) = n"
  by (simp add: round_half_even_def Let_def)

lemma py_round1_mono: "x \<le> y \<Longrightarrow> py_round1 x \<le> py_round1 y"
  unfolding py_round1_def using round_half_even_mono[of "x * 10" "y * 10"]
  by (simp add: divide_right_mono)

lemma py_round1_0 [simp]: "py_round1 0 = 0"
  by (simp add: py_round1_def round_half_even_def)

lemma py_round1_int: "py_round1 (of_int n) = of_int n"
proof -
  have "round_half_even (of_int n * 10) = n * 10"
    using round_half_even_of_int[of "n * 10"] by simp
  then show ?thesis unfolding py_round1_def by simp
qed

subsection \<open>The proximity score of a recorded commute\<close>

lemma proximity_score_present:
  assumes b: "get_path s [''location'', ''bike_accessibility'', ''duration_minutes''] JNull = Inr b"
    and t: "get_path s [''location'', ''public_transport'', ''commute_from_home'',
                        ''duration_minutes''] JNull = Inr t"
    and m: "num_of (if truthy b then b else t) = Inr m" and nz: "m \<noteq> 0"
  shows "calculate_proximity_score s =
           Inr \<lparr>score = Some (py_round1 (proximity_formula m)),
                details = [Val (if truthy b then b else t), Lit '' mins by '',
                           Lit (if truthy b then ''bike'' else ''transit'')]\<rparr>"
proof -
  from b obtain bike where bike: "get_path s [''location'', ''bike_accessibility''] (JObj []) = Inr bike"
    and bm: "py_get bike ''duration_minutes'' JNull = Inr b"
    using get_path_last[of s "[''location'', ''bike_accessibility'']" "''duration_minutes''" JNull b]
    by auto
  from t obtain transit where transit: "get_path s [''location'', ''public_transport'', ''commute_from_home''] (JObj []) = Inr transit"
    and tm: "py_get transit ''duration_minutes'' JNull = Inr t"
    using get_path_last[of s "[''location'', ''public_transport'', ''commute_from_home'']" "''duration_minutes''" JNull t]
    by auto
  have tr: "truthy (if truthy b then b else t)" using m nz by (rule num_of_nonzero_truthy)
  then have "truthy b \<or> truthy t" by (auto split: if_splits)
  then show ?thesis
    unfolding calculate_proximity_score_def bike transit py_bind_Inr bm tm
    using m by (auto simp: proximity_formula_def Let_def algebra_simps)
qed

subsection \<open>The composite score\<close>

lemma accumulate_contributing:
  "accumulate scores weights (a, b) =
     (a + weighted_total (contributing scores weights),
      b + weight_total (contributing scores weights))"
proof (induction weights arbitrary: a b)
  case Nil
  show ?case by (simp add: contributing_def weighted_total_def weight_total_def map_filter_simps)
next
  case (Cons cw weights)
  obtain c w where cw: "cw = (c, w)" by (cases cw)
  show ?case unfolding cw
    by (simp add: Cons.IH contributing_def weighted_total_def weight_total_def map_filter_simps
        split: option.splits)
qed

lemma composite_result:
  assumes "calculate_composite_score s ws ps = Inr r"
  obtains a p pa st f z e sp where
    "calculate_academic_score s = Inr a" "calculate_proximity_score s = Inr p"
    "calculate_parent_satisfaction_score s = Inr pa"
    "calculate_student_satisfaction_score s = Inr st"
    "calculate_facilities_score s = Inr f"
    "calculate_school_size_score s (preferred_size_of ps) = Inr z"
    "calculate_extracurriculars_score s = Inr e"
    "calculate_special_programs_score s = Inr sp"
    "category_scores r = [(''academic_performance'', a), (''proximity'', p),
                      (''parent_satisfaction'', pa), (''student_satisfaction'', st),
                      (''facilities'', f), (''school_size'', z),
                      (''extracurriculars'', e), (''special_programs'', sp)]"
    "weights_used r = (case ws of None \<Rightarrow> DEFAULT_WEIGHTS | Some w \<Rightarrow> w)"
    "total_weight r = weight_total (contributing (category_scores r) (weights_used r))"
    "composite_score r =
       (if 0 < weight_total (contributing (category_scores r) (weights_used r))
           \<and> weighted_total (contributing (category_scores r) (weights_used r)) \<noteq> 0
        then Some (py_round1 (weighted_total (contributing (category_scores r) (weights_used r))
                              / weight_total (contributing (category_scores r) (weights_used r))))
        else None)"
proof -
  have ps: "(case map_of (case ps of None \<Rightarrow> [] | Some p \<Rightarrow> p) ''school_size'' of
               Some p \<Rightarrow> p | None \<Rightarrow> ''medium'') = preferred_size_of ps"
    by (simp add: preferred_size_of_def split: option.splits)
  from assms show ?thesis
    unfolding calculate_composite_score_def Let_def ps
    apply (cases "calculate_academic_score s"; simp)
    apply (cases "calculate_proximity_score s"; simp)
    apply (cases "calculate_parent_satisfaction_score s"; simp)
    apply (cases "calculate_student_satisfaction_score s"; simp)
    apply (cases "calculate_facilities_score s"; simp)
    apply (cases "calculate_school_size_score s (preferred_size_of ps)"; simp)
    apply (cases "calculate_extracurriculars_score s"; simp)
    apply (cases "calculate_special_programs_score s"; simp)
    apply (rule that; (assumption)?)
    apply (auto simp: accumulate_contributing split: prod.splits)
    done
qed

lemmas scorer_defs = calculate_academic_score_def calculate_proximity_score_def
  calculate_parent_satisfaction_score_def calculate_student_satisfaction_score_def
  calculate_facilities_score_def calculate_school_size_score_def
  calculate_extracurriculars_score_def calculate_special_programs_score_def

subsection \<open>Filters\<close>

lemma py_any_in_empty_list: "py_any_in ts (JArr []) = Inr False"
  by (induction ts) simp_all


lemma py_lower_Nil [simp]: "py_lower [] = []"
  by (simp add: py_lower_def)

lemma py_lower_eq_Nil [simp]: "py_lower c = [] \<longleftrightarrow> c = []"
  by (simp add: py_lower_def)

lemma Nil_eq_py_lower [simp]: "[] = py_lower c \<longleftrightarrow> c = []"
  by (auto simp: py_lower_def)

subsection \<open>The academic score of well-formed exam scores\<close>

lemma py_in_obj: "py_in k (JObj kvs) = Inr (map_of kvs k \<noteq> None)"
  by (simp add: map_of_eq_None_iff)

lemma add_if_recorded:
  assumes "opt_field lv f num_or_null"
  shows "(if truthy (case map_of lv f of Some v \<Rightarrow> v | None \<Rightarrow> JNull)
          then xs @ [g (case map_of lv f of Some v \<Rightarrow> v | None \<Rightarrow> JNull)] else xs)
         = xs @ (case recorded_field lv f of Some n \<Rightarrow> [g (JNum n)] | None \<Rightarrow> [])"
proof (cases "map_of lv f")
  case None
  then show ?thesis by (simp add: recorded_field_def)
next
  case (Some v)
  with assms have "num_or_null v" by (simp add: opt_field_def)
  then show ?thesis using Some by (cases v) (simp_all add: recorded_field_def)
qed

lemma collect_levels_absent:
  assumes "map_of es (level_key l) = None"
  shows "collect_levels (JObj es) (l # ls) (ld, av, cc) = collect_levels (JObj es) ls (ld, av, cc)"
proof -
  have "py_in (level_key l) (JObj es) = Inr False"
    using assms by (simp add: py_in_obj del: py_in.simps)
  then show ?thesis by (simp del: py_in.simps)
qed

lemma collect_levels_present:
  assumes "map_of es (level_key l) = Some (JObj lv)"
  shows "collect_levels (JObj es) (l # ls) (ld, av, cc) =
     collect_levels (JObj es) ls
       (if truthy (case map_of lv ''pass_rate_2024_2025'' of Some v \<Rightarrow> v | None \<Rightarrow> JNull)
        then ld @ [Pair l (case map_of lv ''pass_rate_2024_2025'' of Some v \<Rightarrow> v | None \<Rightarrow> JNull)]
        else ld,
        if truthy (case map_of lv ''average_pass_rate_5yr'' of Some v \<Rightarrow> v | None \<Rightarrow> JNull)
        then av @ [case map_of lv ''average_pass_rate_5yr'' of Some v \<Rightarrow> v | None \<Rightarrow> JNull]
        else av,
        if truthy (case map_of lv ''candidates_2024_2025'' of Some v \<Rightarrow> v | None \<Rightarrow> JNull)
        then cc @ [case map_of lv ''candidates_2024_2025'' of Some v \<Rightarrow> v | None \<Rightarrow> JNull]
        else cc)"
proof -
  have "py_in (level_key l) (JObj es) = Inr True"
    using assms by (simp add: py_in_obj del: py_in.simps)
  then show ?thesis using assms by (simp del: py_in.simps)
qed

lemma collect_levels_wf:
  assumes "list_all (\<lambda>l. opt_field es (level_key l) (obj_with wf_level_fields)) ls"
  shows "collect_levels (JObj es) ls (ld, av, cc) =
           Inr (ld @ map (\<lambda>(l, r). (l, JNum r)) (pass_rates es ls),
                av @ map JNum (five_year_averages es ls),
                cc @ map JNum (candidates es ls))"
  using assms
proof (induction ls arbitrary: ld av cc)
  case Nil
  show ?case
    by (simp add: pass_rates_def five_year_averages_def candidates_def map_filter_simps)
next
  case (Cons l ls)
  from Cons.prems have l: "opt_field es (level_key l) (obj_with wf_level_fields)"
    and ls: "list_all (\<lambda>l. opt_field es (level_key l) (obj_with wf_level_fields)) ls"
    by simp_all
  note IH = Cons.IH[OF ls]
  show ?case
  proof (cases "map_of es (level_key l)")
    case None
    then have r: "recorded es f l = None" for f by (simp add: recorded_def)
    show ?thesis
      unfolding collect_levels_absent[OF None] IH
      by (simp add: pass_rates_def five_year_averages_def candidates_def map_filter_simps r)
  next
    case (Some v)
    with l obtain lv where v: "v = JObj lv" and wf: "wf_level_fields lv"
      by (cases v) (simp_all add: opt_field_def)
    from wf have f: "opt_field lv ''pass_rate_2024_2025'' num_or_null"
      "opt_field lv ''average_pass_rate_5yr'' num_or_null"
      "opt_field lv ''candidates_2024_2025'' num_or_null"
      by (simp_all add: wf_level_fields_def)
    have r: "recorded es f l = recorded_field lv f" for f
      by (simp add: recorded_def Some v)
    show ?thesis
      unfolding collect_levels_present[OF Some[unfolded v]]
        add_if_recorded[OF f(1), of _ "Pair l"]
        add_if_recorded[OF f(2), of _ "\<lambda>x. x"] add_if_recorded[OF f(3), of _ "\<lambda>x. x"] IH
      by (simp add: pass_rates_def five_year_averages_def candidates_def map_filter_simps r
          split: option.splits)
  qed
qed

lemma nums_of_JNum [simp]: "nums_of (map JNum xs) = Inr xs"
  by (induction xs) simp_all

lemma float_limit_bound: "4 * 2 ^ 1000 \<le> float_limit"
  by (simp add: float_limit_def)

lemma py_float_small: "\<bar>x\<bar> \<le> 3 * 2 ^ 1000 \<Longrightarrow> py_float x = Inr x"
  using float_limit_bound by (simp add: py_float_def)

lemma as_float_small: "\<bar>x\<bar> < 2 ^ 1000 \<Longrightarrow> as_float (Inl (JNum x)) = Inr x"
  using py_float_small[of x] by simp

lemma py_fix1_small: "\<bar>x\<bar> < 2 ^ 1000 \<Longrightarrow> py_fix1 (JNum x) = Inr x"
  using py_float_small[of x] by simp

lemma weighted_rates_small:
  "list_all (\<lambda>(l, r). \<bar>r\<bar> < 2 ^ 1000) rs
   \<Longrightarrow> weighted_rates (map (\<lambda>(l, r). (l, JNum r)) rs)
       = Inr (sum_list (map (\<lambda>(l, r). r * level_weights l) rs))"
  by (induction rs) (auto simp: as_float_small simp del: as_float.simps)

lemma sum_list_bound:
  fixes xs :: "real list"
  shows "list_all (\<lambda>x. \<bar>x\<bar> < B) xs \<Longrightarrow> \<bar>sum_list xs\<bar> \<le> real (length xs) * B"
  by (induction xs) (auto simp: algebra_simps)

lemma py_mean_small:
  assumes "xs \<noteq> []" and "list_all (\<lambda>x. \<bar>x\<bar> < 2 ^ 1000) xs"
  shows "\<exists>b. py_mean (map JNum xs) = Inr (mean xs, b)" and "py_float (mean xs) = Inr (mean xs)"
proof -
  from assms(1) have n: "0 < real (length xs)" by simp
  from sum_list_bound[OF assms(2)] have "\<bar>sum_list xs\<bar> / real (length xs) \<le> 2 ^ 1000"
    using n by (simp add: field_simps)
  then have "\<bar>mean xs\<bar> \<le> 3 * 2 ^ 1000" by (simp add: mean_def)
  then show f: "py_float (mean xs) = Inr (mean xs)" by (rule py_float_small)
  show "\<exists>b. py_mean (map JNum xs) = Inr (mean xs, b)"
    by (auto simp: py_mean_def f)
qed

lemma py_sum_small:
  assumes "list_all (\<lambda>x. \<bar>x\<bar> < 2 ^ 1000) xs" and "\<bar>t\<bar> \<le> real k * 2 ^ 1000"
    and "length xs + k \<le> 3"
  shows "\<exists>t' b'. py_sum (map JNum xs) (t, b) = Inr (t', b') \<and> \<bar>t'\<bar> \<le> 3 * 2 ^ 1000"
  using assms
proof (induction xs arbitrary: t b k)
  case Nil
  have "real k * 2 ^ 1000 \<le> 3 * (2 ^ 1000 :: real)"
    using Nil.prems(3) by (intro mult_right_mono) simp_all
  with Nil.prems(2) show ?case by simp
next
  case (Cons x xs)
  from Cons.prems have x: "\<bar>x\<bar> < 2 ^ 1000" and xs: "list_all (\<lambda>x. \<bar>x\<bar> < 2 ^ 1000) xs"
    and k: "length xs + Suc k \<le> 3" by simp_all
  have "real k * 2 ^ 1000 \<le> 3 * (2 ^ 1000 :: real)"
    using k by (intro mult_right_mono) simp_all
  with Cons.prems(2) have t: "py_float t = Inr t" by (intro py_float_small) simp
  from x have fx: "py_float x = Inr x" by (intro py_float_small) simp
  have s: "\<bar>t + x\<bar> \<le> real (Suc k) * 2 ^ 1000"
    using Cons.prems(2) x by (simp add: algebra_simps)
  from Cons.IH[OF xs s k]
  show ?case by (simp add: t fx)
qed

lemma py_div_int_small: "\<bar>t\<bar> \<le> 3 * 2 ^ 1000 \<Longrightarrow> py_div_int (t, b) 500 = Inr (t / 500)"
  using py_float_small[of "t / 500"] by simp

lemma small_map_of: "small (JObj kvs) \<Longrightarrow> map_of kvs k = Some v \<Longrightarrow> small v"
  using map_of_SomeD[of kvs k v] by (fastforce simp: list_all_iff)

lemma recorded_small:
  assumes "small (JObj es)" and "recorded es f l = Some n"
  shows "\<bar>n\<bar> < 2 ^ 1000"
proof -
  from assms(2) obtain lv where lv: "map_of es (level_key l) = Some (JObj lv)"
    and n: "map_of lv f = Some (JNum n)"
    by (auto simp: recorded_def recorded_field_def split: option.splits json.splits if_splits)
  from small_map_of[OF assms(1) lv] have "small (JObj lv)" .
  from small_map_of[OF this n] show ?thesis by simp
qed

lemma recorded_lists_small:
  assumes "small (JObj es)"
  shows "list_all (\<lambda>(l, r). \<bar>r\<bar> < 2 ^ 1000) (pass_rates es ls)"
    and "list_all (\<lambda>x. \<bar>x\<bar> < 2 ^ 1000) (five_year_averages es ls)"
    and "list_all (\<lambda>x. \<bar>x\<bar> < 2 ^ 1000) (candidates es ls)"
    and "length (candidates es ls) \<le> length ls"
  using recorded_small[OF assms]
  by (auto simp: pass_rates_def five_year_averages_def candidates_def map_filter_def
      list_all_iff)

lemma pass_rates_empty: "pass_rates [] ls = []"
  by (induction ls) (simp_all add: pass_rates_def recorded_def map_filter_simps)

lemma academic_score_wf:
  assumes es: "get_path s [''academic_performance'', ''exam_scores''] (JObj []) = Inr (JObj es)"
    and wf: "wf_exam_scores es" and sm: "small (JObj es)"
  shows "\<exists>r. calculate_academic_score s = Inr r \<and> details r \<noteq> []
           \<and> (score r = None \<longleftrightarrow> pass_rates es [Vmbo, Havo, Vwo] = [])"
proof -
  define rs where "rs = pass_rates es [Vmbo, Havo, Vwo]"
  define av where "av = five_year_averages es [Vmbo, Havo, Vwo]"
  define cc where "cc = candidates es [Vmbo, Havo, Vwo]"
  have loop: "collect_levels (JObj es) [Vmbo, Havo, Vwo] ([], [], [])
     = Inr (map (\<lambda>(l, r). (l, JNum r)) rs, map JNum av, map JNum cc)"
    using collect_levels_wf[of es "[Vmbo, Havo, Vwo]" "[]" "[]" "[]"] wf
    unfolding wf_exam_scores_def rs_def av_def cc_def by simp
  note small = recorded_lists_small[OF sm, of "[Vmbo, Havo, Vwo]", folded rs_def av_def cc_def]
  from py_sum_small[OF small(3), of 0 0 False] small(4)
  obtain t b where t: "py_sum (map JNum cc) (0, False) = Inr (t, b)" "\<bar>t\<bar> \<le> 3 * 2 ^ 1000"
    by auto
  note d = py_div_int_small[OF t(2), of b]
  note w = weighted_rates_small[OF small(1)]
  show ?thesis
  proof (cases "es = [] \<or> rs = []")
    case True
    then show ?thesis
      unfolding calculate_academic_score_def es py_bind_Inr loop
      using pass_rates_empty by (auto simp: rs_def)
  next
    case False
    then have ne: "es \<noteq> []" "rs \<noteq> []" by simp_all
    have cur: "\<exists>c x. (if length (map (\<lambda>(l, r). (l, JNum r)) rs) = 1
                 then Inr (Inl (snd (hd (map (\<lambda>(l, r). (l, JNum r)) rs))))
                 else py_bind (weighted_rates (map (\<lambda>(l, r). (l, JNum r)) rs))
                        (\<lambda>weighted_sum.
                           Inr (Inr (weighted_sum
                                     / sum_list (map (\<lambda>(l, rate). level_weights l)
                                                   (map (\<lambda>(l, r). (l, JNum r)) rs))))))
               = Inr c \<and> as_float c = Inr x"
    proof (cases "length rs = 1")
      case True
      then obtain l r where r: "rs = [(l, r)]"
        by (cases rs) (auto simp: length_Suc_conv)
      with small(1) have "\<bar>r\<bar> < 2 ^ 1000" by simp
      from as_float_small[OF this] show ?thesis using r by simp
    next
      case False
      then show ?thesis by (simp add: w)
    qed
    then obtain c x where c: "(if length (map (\<lambda>(l, r). (l, JNum r)) rs) = 1
                 then Inr (Inl (snd (hd (map (\<lambda>(l, r). (l, JNum r)) rs))))
                 else py_bind (weighted_rates (map (\<lambda>(l, r). (l, JNum r)) rs))
                        (\<lambda>weighted_sum.
                           Inr (Inr (weighted_sum
                                     / sum_list (map (\<lambda>(l, rate). level_weights l)
                                                   (map (\<lambda>(l, r). (l, JNum r)) rs))))))
               = Inr c" and x: "as_float c = Inr x"
      by blast
    have nn: "map (\<lambda>(l, r). (l, JNum r)) rs \<noteq> []" "JObj es \<noteq> JObj []" "truthy (JObj es)"
      using ne by simp_all
    show ?thesis
    proof (cases "av = []")
      case True
      show ?thesis
        unfolding calculate_academic_score_def es py_bind_Inr loop prod.case c
        using nn True ne(2)[unfolded rs_def]
        by (simp add: t(1) d x Let_def del: py_div_int.simps)
    next
      case False
      from py_mean_small[OF False small(2)] obtain b' where
        m: "py_mean (map JNum av) = Inr (mean av, b')" "py_float (mean av) = Inr (mean av)"
        by auto
      show ?thesis
        unfolding calculate_academic_score_def es py_bind_Inr loop prod.case c
        using nn False ne(2)[unfolded rs_def]
        by (simp add: t(1) d x m Let_def del: py_div_int.simps)
    qed
  qed
qed

subsection \<open>Lookups in a well-formed record\<close>

lemma wf_get:
  "opt_field kvs k P \<Longrightarrow> P d \<Longrightarrow> \<exists>v. py_get (JObj kvs) k d = Inr v \<and> P v"
  by (cases "map_of kvs k") (simp_all add: opt_field_def)

lemma wf_get_obj:
  assumes "opt_field kvs k (obj_with P)" and "P []"
  shows "\<exists>kvs'. py_get (JObj kvs) k (JObj []) = Inr (JObj kvs') \<and> P kvs'"
proof -
  from wf_get[OF assms(1), of "JObj []"] assms(2)
  obtain v where v: "py_get (JObj kvs) k (JObj []) = Inr v" "obj_with P v" by auto
  then show ?thesis by (cases v) simp_all
qed

lemma wf_get_list:
  assumes "opt_field kvs k (list_with P)"
  shows "\<exists>xs. py_get (JObj kvs) k (JArr []) = Inr (JArr xs) \<and> list_all P xs"
proof -
  from wf_get[OF assms, of "JArr []"]
  obtain v where v: "py_get (JObj kvs) k (JArr []) = Inr v" "list_with P v" by auto
  then show ?thesis by (cases v) simp_all
qed

lemma wf_school_obj:
  assumes "wf_school s"
  obtains kvs bi where "s = JObj kvs" and "map_of kvs ''basic_info'' = Some (JObj bi)"
    and "wf_basic_info bi"
    and "opt_field kvs ''academic_performance'' (obj_with wf_academic)"
    and "opt_field kvs ''location'' (obj_with wf_location)"
    and "opt_field kvs ''facilities'' (obj_with wf_facilities)"
    and "opt_field kvs ''student_support'' (obj_with wf_support)"
    and "opt_field kvs ''reviews_reputation'' (obj_with wf_reviews)"
proof -
  from assms obtain kvs where s: "s = JObj kvs"
    by (cases s) (simp_all add: wf_school_def)
  from assms obtain v where v: "map_of kvs ''basic_info'' = Some v"
    unfolding wf_school_def s by (cases "map_of kvs ''basic_info''") simp_all
  from assms obtain bi where "v = JObj bi"
    unfolding wf_school_def s using v by (cases v) simp_all
  with assms v show ?thesis
    using that[of kvs bi] unfolding wf_school_def s by simp
qed

lemma wf_empty [simp]: "wf_academic []" "wf_location []" "wf_facilities []" "wf_support []"
  "wf_reviews []" "wf_exam_scores []" "opt_field [] k P"
  by (simp_all add: wf_academic_def wf_location_def wf_facilities_def wf_support_def
      wf_reviews_def wf_exam_scores_def opt_field_def)

lemma wf_exam_scores_path:
  assumes "wf_school s"
  obtains es where
    "get_path s [''academic_performance'', ''exam_scores''] (JObj []) = Inr (JObj es)"
    and "wf_exam_scores es"
proof -
  from assms obtain kvs where s: "s = JObj kvs"
    and ap: "opt_field kvs ''academic_performance'' (obj_with wf_academic)"
    by (rule wf_school_obj)
  from wf_get_obj[OF ap] obtain a
    where a: "py_get (JObj kvs) ''academic_performance'' (JObj []) = Inr (JObj a)"
      and wa: "wf_academic a" by auto
  from wa have "opt_field a ''exam_scores'' (obj_with wf_exam_scores)"
    by (simp add: wf_academic_def)
  from wf_get_obj[OF this] obtain es
    where "py_get (JObj a) ''exam_scores'' (JObj []) = Inr (JObj es)" and "wf_exam_scores es"
    by auto
  then show ?thesis using that[of es] a unfolding s by simp
qed

lemma wf_activity_paths:
  assumes "wf_school s"
  obtains xs ys zs where
    "get_path s [''academic_performance'', ''extracurricular_activities''] (JArr [])
       = Inr (JArr xs)"
    and "get_path s [''student_support'', ''after_school_programs''] (JArr []) = Inr (JArr ys)"
    and "get_path s [''academic_performance'', ''special_programs''] (JArr []) = Inr (JArr zs)"
    and "list_all is_str zs"
proof -
  from assms obtain kvs where s: "s = JObj kvs"
    and ap: "opt_field kvs ''academic_performance'' (obj_with wf_academic)"
    and ss: "opt_field kvs ''student_support'' (obj_with wf_support)"
    by (rule wf_school_obj)
  from wf_get_obj[OF ap] obtain a
    where a: "py_get (JObj kvs) ''academic_performance'' (JObj []) = Inr (JObj a)"
      and wa: "wf_academic a" by auto
  from wf_get_obj[OF ss] obtain u
    where u: "py_get (JObj kvs) ''student_support'' (JObj []) = Inr (JObj u)"
      and wu: "wf_support u" by auto
  from wa have ea: "opt_field a ''extracurricular_activities'' (list_with is_str)"
    and spp: "opt_field a ''special_programs'' (list_with is_str)"
    by (simp_all add: wf_academic_def)
  from wf_get_list[OF ea] obtain xs where
    x: "py_get (JObj a) ''extracurricular_activities'' (JArr []) = Inr (JArr xs)"
    by auto
  from wf_get_list[OF spp] obtain zs where
    z: "py_get (JObj a) ''special_programs'' (JArr []) = Inr (JArr zs)" "list_all is_str zs"
    by auto
  from wu have "opt_field u ''after_school_programs'' (list_with (\<lambda>x. True))"
    by (simp add: wf_support_def)
  from wf_get_list[OF this]
  obtain ys where y: "py_get (JObj u) ''after_school_programs'' (JArr []) = Inr (JArr ys)"
    by auto
  show ?thesis using that[of xs ys zs] a u x y z unfolding s by simp
qed

lemma wf_commute_paths:
  assumes "wf_school s"
  obtains bike transit b t where
    "get_path s [''location'', ''bike_accessibility''] (JObj []) = Inr bike"
    and "get_path s [''location'', ''public_transport'', ''commute_from_home''] (JObj [])
           = Inr transit"
    and "py_get bike ''duration_minutes'' JNull = Inr b" and "num_or_null b"
    and "py_get transit ''duration_minutes'' JNull = Inr t" and "num_or_null t"
proof -
  from assms obtain kvs where s: "s = JObj kvs"
    and lo: "opt_field kvs ''location'' (obj_with wf_location)"
    by (rule wf_school_obj)
  from wf_get_obj[OF lo] obtain l
    where l: "py_get (JObj kvs) ''location'' (JObj []) = Inr (JObj l)"
      and wl: "wf_location l" by auto
  from wl have "opt_field l ''bike_accessibility''
       (obj_with (\<lambda>b. opt_field b ''duration_minutes'' num_or_null))"
    by (simp add: wf_location_def)
  from wf_get_obj[OF this] obtain bk
    where bk: "py_get (JObj l) ''bike_accessibility'' (JObj []) = Inr (JObj bk)"
      and wb: "opt_field bk ''duration_minutes'' num_or_null" by auto
  from wf_get[OF wb, of JNull] obtain b
    where b: "py_get (JObj bk) ''duration_minutes'' JNull = Inr b" "num_or_null b" by auto
  from wl have "opt_field l ''public_transport''
         (obj_with (\<lambda>pt. opt_field pt ''commute_from_home''
            (obj_with (\<lambda>c. opt_field c ''duration_minutes'' num_or_null))))"
    by (simp add: wf_location_def)
  from wf_get_obj[OF this] obtain pt
    where pt: "py_get (JObj l) ''public_transport'' (JObj []) = Inr (JObj pt)"
      and wp: "opt_field pt ''commute_from_home''
            (obj_with (\<lambda>c. opt_field c ''duration_minutes'' num_or_null))"
    by auto
  from wf_get_obj[OF wp] obtain c
    where c: "py_get (JObj pt) ''commute_from_home'' (JObj []) = Inr (JObj c)"
      and wc: "opt_field c ''duration_minutes'' num_or_null" by auto
  from wf_get[OF wc, of JNull] obtain t
    where t: "py_get (JObj c) ''duration_minutes'' JNull = Inr t" "num_or_null t" by auto
  show ?thesis
    using that[of "JObj bk" "JObj c" b t] l bk b pt c t unfolding s by simp
qed

lemma wf_enrollment_path:
  assumes "wf_school s"
  obtains v where "get_path s [''basic_info'', ''enrollment'', ''total''] JNull = Inr v"
    and "num_or_null v"
proof -
  from assms obtain kvs bi where s: "s = JObj kvs"
    and bi: "map_of kvs ''basic_info'' = Some (JObj bi)" and wb: "wf_basic_info bi"
    by (rule wf_school_obj)
  from wb have "opt_field bi ''enrollment'' (obj_with (\<lambda>e. opt_field e ''total'' num_or_null))"
    by (simp add: wf_basic_info_def)
  from wf_get_obj[OF this] obtain en
    where en: "py_get (JObj bi) ''enrollment'' (JObj []) = Inr (JObj en)"
      and we: "opt_field en ''total'' num_or_null" by auto
  from wf_get[OF we, of JNull] obtain v
    where v: "py_get (JObj en) ''total'' JNull = Inr v" "num_or_null v" by auto
  show ?thesis using that[of v] bi en v unfolding s by simp
qed

lemma wf_reviews_path:
  assumes "wf_school s" and "key = ''parent_reviews'' \<or> key = ''student_reviews''"
  obtains xs where "get_path s [''reviews_reputation'', key] (JArr []) = Inr (JArr xs)"
    and "list_all (obj_with wf_review_fields) xs"
proof -
  from assms(1) obtain kvs where s: "s = JObj kvs"
    and rr: "opt_field kvs ''reviews_reputation'' (obj_with wf_reviews)"
    by (rule wf_school_obj)
  from wf_get_obj[OF rr] obtain r
    where r: "py_get (JObj kvs) ''reviews_reputation'' (JObj []) = Inr (JObj r)"
      and wr: "wf_reviews r" by auto
  from wr assms(2) have "opt_field r key (list_with (obj_with wf_review_fields))"
    by (auto simp: wf_reviews_def)
  from wf_get_list[OF this] obtain xs
    where "py_get (JObj r) key (JArr []) = Inr (JArr xs)"
      and "list_all (obj_with wf_review_fields) xs" by auto
  then show ?thesis using that[of xs] r unfolding s by simp
qed

lemma wf_facilities_paths:
  assumes "wf_school s"
  obtains fa d sp cl li te where "py_get s ''facilities'' (JObj []) = Inr (JObj fa)"
    and "get_path (JObj fa) [''technology'', ''description''] JNull = Inr d"
    and "py_get (JObj fa) ''sports_facilities'' (JArr []) = Inr (JArr sp)"
    and "py_get (JObj fa) ''classrooms_labs_quality'' (JStr []) = Inr (JStr cl)"
    and "py_get (JObj fa) ''library'' (JObj []) = Inr li"
    and "py_get (JObj fa) ''technology'' JNull = Inr te"
proof -
  from assms obtain kvs where s: "s = JObj kvs"
    and f: "opt_field kvs ''facilities'' (obj_with wf_facilities)"
    by (rule wf_school_obj)
  from wf_get_obj[OF f] obtain fa
    where fa: "py_get (JObj kvs) ''facilities'' (JObj []) = Inr (JObj fa)"
      and wf: "wf_facilities fa" by auto
  from wf have "opt_field fa ''technology'' (obj_with (\<lambda>t. True))"
    by (simp add: wf_facilities_def)
  from wf_get_obj[OF this] obtain te
    where te: "py_get (JObj fa) ''technology'' (JObj []) = Inr (JObj te)" by auto
  from wf have "opt_field fa ''sports_facilities'' (list_with (\<lambda>x. True))"
    by (simp add: wf_facilities_def)
  from wf_get_list[OF this] obtain sp
    where sp: "py_get (JObj fa) ''sports_facilities'' (JArr []) = Inr (JArr sp)" by auto
  from wf have "opt_field fa ''classrooms_labs_quality'' is_str"
    by (simp add: wf_facilities_def)
  from wf_get[OF this, of "JStr []"] obtain c
    where c: "py_get (JObj fa) ''classrooms_labs_quality'' (JStr []) = Inr c" "is_str c"
    by auto
  then obtain cl where cl: "c = JStr cl" by (cases c) simp_all
  show ?thesis
    using that[of fa _ sp cl] fa te sp c unfolding s cl by simp
qed

subsection \<open>The school-size score of a recorded enrollment\<close>

lemma school_size_score_present:
  assumes v: "get_path s [''basic_info'', ''enrollment'', ''total''] JNull = Inr v"
    and e: "num_of v = Inr e" and nz: "e \<noteq> 0"
  shows "calculate_school_size_score s p =
           Inr \<lparr>score = Some (size_table p (size_bucket e)),
                details = [Val v, Lit '' students ('',
                           Lit (case size_bucket e of Small \<Rightarrow> ''small'' | Medium \<Rightarrow> ''medium''
                                | Large \<Rightarrow> ''large'' | Very_large \<Rightarrow> ''very large''),
                           Lit '')'']\<rparr>"
proof -
  have tr: "truthy v" using e nz by (rule num_of_nonzero_truthy)
  have row: "(case map_of preference_scores p of Some r \<Rightarrow> r
              | None \<Rightarrow> [(''small'', 80), (''medium'', 80), (''large'', 80), (''very_large'', 80)])
             = (if p = ''small'' then [(''small'', 100), (''medium'', 70), (''large'', 50), (''very_large'', 30)]
                else if p = ''medium'' then [(''small'', 70), (''medium'', 100), (''large'', 80), (''very_large'', 60)]
                else if p = ''large'' then [(''small'', 50), (''medium'', 80), (''large'', 100), (''very_large'', 90)]
                else [(''small'', 80), (''medium'', 80), (''large'', 80), (''very_large'', 80)])"
    by (simp add: preference_scores_def)
  have any: "map_of preference_scores ''any''
             = Some [(''small'', 80), (''medium'', 80), (''large'', 80), (''very_large'', 80)]"
    by (simp add: preference_scores_def)
  show ?thesis
    unfolding calculate_school_size_score_def v py_bind_Inr e any Let_def option.case row
    using tr
    by (simp add: size_table_def size_bucket_def replace_underscore_def)
qed

subsection \<open>The scorers on a well-formed record\<close>

lemma lookup_eq: "get_path s path JNull = Inr v \<Longrightarrow> lookup s path = v"
  by (simp add: lookup_def)

lemma get_path_default:
  "get_path s path d = Inr v \<Longrightarrow> \<not> truthy d \<Longrightarrow> path \<noteq> []
   \<Longrightarrow> \<exists>v'. get_path s path JNull = Inr v' \<and> (truthy v' \<longleftrightarrow> truthy v) \<and> (truthy v \<longrightarrow> v' = v)"
proof (induction s path d rule: get_path.induct)
  case (1 x d)
  then show ?case by simp
next
  case (2 x k d)
  then show ?case by (cases x) (auto split: option.splits)
next
  case (3 x k k' ks d)
  then show ?case by (cases "py_get x k (JObj [])") auto
qed

lemma small_py_get:
  assumes "py_get x k d = Inr v" and "small x" and "small d"
  shows "small v"
proof (cases x)
  case (JObj kvs)
  with assms show ?thesis using small_map_of[of kvs k v]
    by (cases "map_of kvs k") auto
qed (use assms in simp_all)

lemma small_get_path: "get_path s path d = Inr v \<Longrightarrow> small s \<Longrightarrow> small d \<Longrightarrow> small v"
proof (induction s path d arbitrary: v rule: get_path.induct)
  case (1 x d)
  then show ?case by simp
next
  case (2 x k d)
  then show ?case using small_py_get[of x k d v] by simp
next
  case (3 x k k' ks d)
  from 3(2) obtain y where y: "py_get x k (JObj []) = Inr y"
    and v: "get_path y (k' # ks) d = Inr v"
    by (cases "py_get x k (JObj [])") auto
  from small_py_get[OF y 3(3)] have "small y" by simp
  from 3(1)[OF y v this 3(4)] show ?case .
qed

lemma num_or_null_truthy: "num_or_null v \<Longrightarrow> truthy v \<Longrightarrow> \<exists>n. v = JNum n \<and> n \<noteq> 0"
  by (cases v) simp_all

lemma proximity_score_wf:
  assumes "wf_school s"
  shows "\<exists>r. calculate_proximity_score s = Inr r \<and> details r \<noteq> []
           \<and> (score r = None \<longleftrightarrow> \<not> has_commute s)"
proof -
  from assms obtain bike transit b t where
    bike: "get_path s [''location'', ''bike_accessibility''] (JObj []) = Inr bike"
    and transit: "get_path s [''location'', ''public_transport'', ''commute_from_home'']
           (JObj []) = Inr transit"
    and b: "py_get bike ''duration_minutes'' JNull = Inr b" and nb: "num_or_null b"
    and t: "py_get transit ''duration_minutes'' JNull = Inr t" and nt: "num_or_null t"
    by (rule wf_commute_paths)
  have pb: "get_path s [''location'', ''bike_accessibility'', ''duration_minutes''] JNull = Inr b"
    using get_path_snoc[of s "[''location'', ''bike_accessibility'']" "''duration_minutes''" JNull]
      bike b by simp
  have pt: "get_path s [''location'', ''public_transport'', ''commute_from_home'',
              ''duration_minutes''] JNull = Inr t"
    using get_path_snoc[of s "[''location'', ''public_transport'', ''commute_from_home'']"
        "''duration_minutes''" JNull] transit t by simp
  have hc: "has_commute s \<longleftrightarrow> truthy b \<or> truthy t"
    by (simp add: has_commute_def lookup_eq[OF pb] lookup_eq[OF pt])
  show ?thesis
  proof (cases "truthy b \<or> truthy t")
    case False
    then show ?thesis
      unfolding calculate_proximity_score_def bike transit py_bind_Inr b t hc by simp
  next
    case True
    then have "truthy (if truthy b then b else t)" by auto
    moreover have "num_or_null (if truthy b then b else t)" using nb nt by simp
    ultimately obtain m where m: "(if truthy b then b else t) = JNum m" "m \<noteq> 0"
      using num_or_null_truthy by blast
    then have "num_of (if truthy b then b else t) = Inr m" by simp
    from proximity_score_present[OF pb pt this m(2)] True show ?thesis
      by (simp add: hc)
  qed
qed

lemma school_size_score_wf:
  assumes "wf_school s"
  shows "\<exists>r. calculate_school_size_score s p = Inr r \<and> details r \<noteq> []
           \<and> (score r = None \<longleftrightarrow> \<not> has_enrollment s)"
proof -
  from assms obtain v where v: "get_path s [''basic_info'', ''enrollment'', ''total''] JNull = Inr v"
    and n: "num_or_null v" by (rule wf_enrollment_path)
  have he: "has_enrollment s \<longleftrightarrow> truthy v"
    by (simp add: has_enrollment_def lookup_eq[OF v])
  show ?thesis
  proof (cases "truthy v")
    case False
    then show ?thesis unfolding calculate_school_size_score_def v he by simp
  next
    case True
    with n obtain e where "v = JNum e" "e \<noteq> 0" using num_or_null_truthy by blast
    then have "num_of v = Inr e" "e \<noteq> 0" by simp_all
    from school_size_score_present[OF v this, of p] True show ?thesis by (simp add: he)
  qed
qed

lemma satisfaction_tail_wf:
  assumes r: "wf_review_fields r" and k: "k = ''would_recommend'' \<or> k = ''voice_matters''"
    and n: "map_of r ''overall_rating'' = Some (JNum x)" "x \<noteq> 0"
    and sm: "small (JObj r)"
  shows "\<exists>d. py_bind (py_mul (JNum x) 10) (\<lambda>sc.
     py_bind (py_get (JObj r) k JNull) (\<lambda>recommend.
     py_bind (if truthy recommend
              then py_bind (py_fix1 recommend) (\<lambda>v. Inr [Lit '', '', Fix1 v, Lit sfx])
              else Inr []) (\<lambda>recommend_text.
     py_bind (py_round1_val sc) (\<lambda>rounded.
     py_bind (py_fix1 (JNum x)) (\<lambda>y.
       Inr \<lparr>score = Some rounded,
            details = [Fix1 y, Lit ''/10 rating''] @ recommend_text\<rparr>)))))
     = Inr \<lparr>score = Some (py_round1 (x * 10)), details = Fix1 x # Lit ''/10 rating'' # d\<rparr>"
proof -
  from r k have "opt_field r k num_or_null" by (auto simp: wf_review_fields_def)
  from wf_get[OF this, of JNull] obtain v where v: "py_get (JObj r) k JNull = Inr v"
    "num_or_null v" by auto
  from small_map_of[OF sm n(1)] have x: "py_fix1 (JNum x) = Inr x"
    by (intro py_fix1_small) simp
  show ?thesis
  proof (cases "truthy v")
    case True
    with v(2) obtain m where m: "v = JNum m" using num_or_null_truthy by blast
    from small_py_get[OF v(1) sm] have "py_fix1 (JNum m) = Inr m"
      unfolding m by (intro py_fix1_small) simp
    then show ?thesis unfolding v(1) using True x by (simp add: m del: py_fix1.simps)
  next
    case False
    then show ?thesis unfolding v(1) using x by (simp del: py_fix1.simps)
  qed
qed

lemma satisfaction_scores_wf:
  assumes "wf_school s" and sm: "small s"
  shows "(\<exists>r. calculate_parent_satisfaction_score s = Inr r \<and> details r \<noteq> []
           \<and> (score r = None \<longleftrightarrow> \<not> has_rating s ''parent_reviews''))
       \<and> (\<exists>r. calculate_student_satisfaction_score s = Inr r \<and> details r \<noteq> []
           \<and> (score r = None \<longleftrightarrow> \<not> has_rating s ''student_reviews''))"
proof -
  have *: "\<exists>res. f s = Inr res \<and> details res \<noteq> [] \<and> (score res = None \<longleftrightarrow> \<not> has_rating s key)"
    if key: "key = ''parent_reviews'' \<or> key = ''student_reviews''"
      and k: "k = ''would_recommend'' \<or> k = ''voice_matters''"
      and f: "f s = py_bind (get_path s [''reviews_reputation'', key] (JArr [])) (\<lambda>reviews.
     if \<not> truthy reviews
     then Inr \<lparr>score = None, details = [Lit nodata]\<rparr>
     else
     py_bind (py_first reviews) (\<lambda>latest.
     py_bind (py_get latest ''overall_rating'' JNull) (\<lambda>rating.
     if \<not> truthy rating
     then Inr \<lparr>score = None, details = [Lit ''No rating available'']\<rparr>
     else
     py_bind (py_mul rating 10) (\<lambda>sc.
     py_bind (py_get latest k JNull) (\<lambda>recommend.
     py_bind (if truthy recommend
              then py_bind (py_fix1 recommend) (\<lambda>v. Inr [Lit '', '', Fix1 v, Lit sfx])
              else Inr []) (\<lambda>recommend_text.
     py_bind (py_round1_val sc) (\<lambda>rounded.
     py_bind (py_fix1 rating) (\<lambda>y.
       Inr \<lparr>score = Some rounded,
            details = [Fix1 y, Lit ''/10 rating''] @ recommend_text\<rparr>))))))))"
    for f key k nodata sfx
  proof -
    from assms(1) key obtain xs
      where xs: "get_path s [''reviews_reputation'', key] (JArr []) = Inr (JArr xs)"
        and wx: "list_all (obj_with wf_review_fields) xs" by (rule wf_reviews_path)
    from small_get_path[OF xs sm] have sx: "list_all small xs" by simp
    from get_path_default[OF xs] obtain v'
      where v': "get_path s [''reviews_reputation'', key] JNull = Inr v'"
        "truthy v' \<longleftrightarrow> xs \<noteq> []" "xs \<noteq> [] \<longrightarrow> v' = JArr xs" by auto
    show ?thesis
    proof (cases xs)
      case Nil
      with v' have "\<not> has_rating s key"
        by (cases v') (auto simp: has_rating_def lookup_eq[OF v'(1)] split: list.splits)
      then show ?thesis unfolding f xs Nil by simp
    next
      case (Cons x rest)
      with wx obtain r where x: "x = JObj r" and wr: "wf_review_fields r"
        by (cases x) simp_all
      from v' Cons have l: "lookup s [''reviews_reputation'', key] = JArr (JObj r # rest)"
        by (simp add: lookup_eq[OF v'(1)] x)
      from wr have "opt_field r ''overall_rating'' num_or_null"
        by (simp add: wf_review_fields_def)
      from wf_get[OF this, of JNull] obtain ra
        where ra: "py_get (JObj r) ''overall_rating'' JNull = Inr ra" "num_or_null ra" by auto
      have hr: "has_rating s key \<longleftrightarrow> truthy ra" using ra(1)
        by (simp add: has_rating_def l)
      show ?thesis
      proof (cases "truthy ra")
        case False
        then show ?thesis unfolding f xs Cons x hr
          by (simp add: ra(1) del: py_get.simps)
      next
        case True
        with ra(2) obtain n where n: "ra = JNum n" "n \<noteq> 0" using num_or_null_truthy by blast
        with ra(1) have mo: "map_of r ''overall_rating'' = Some (JNum n)"
          by (auto split: option.splits)
        from sx Cons x have "small (JObj r)" by simp
        from satisfaction_tail_wf[OF wr k mo n(2) this, of sfx] obtain d where
          "py_bind (py_mul (JNum n) 10) (\<lambda>sc.
     py_bind (py_get (JObj r) k JNull) (\<lambda>recommend.
     py_bind (if truthy recommend
              then py_bind (py_fix1 recommend) (\<lambda>v. Inr [Lit '', '', Fix1 v, Lit sfx])
              else Inr []) (\<lambda>recommend_text.
     py_bind (py_round1_val sc) (\<lambda>rounded.
     py_bind (py_fix1 (JNum n)) (\<lambda>y.
       Inr \<lparr>score = Some rounded,
            details = [Fix1 y, Lit ''/10 rating''] @ recommend_text\<rparr>)))))
     = Inr \<lparr>score = Some (py_round1 (n * 10)), details = Fix1 n # Lit ''/10 rating'' # d\<rparr>"
          by blast
        then show ?thesis unfolding f xs Cons x hr
          using True n by (simp add: mo)
      qed
    qed
  qed
  show ?thesis
    using *[of "''parent_reviews''" "''would_recommend''" calculate_parent_satisfaction_score
        "''No parent reviews''" "''/10 recommend''"]
      *[of "''student_reviews''" "''voice_matters''" calculate_student_satisfaction_score
        "''No student reviews''" "''/10 voice matters''"]
    unfolding calculate_parent_satisfaction_score_def calculate_student_satisfaction_score_def
    by simp
qed

lemma lacks_pass_rate_none:
  assumes es: "get_path s [''academic_performance'', ''exam_scores''] (JObj []) = Inr (JObj es)"
    and l: "lacks_pass_rate s"
  shows "pass_rates es [Vmbo, Havo, Vwo] = []"
proof -
  have "recorded es ''pass_rate_2024_2025'' l = None" for l
  proof (rule ccontr)
    assume "recorded es ''pass_rate_2024_2025'' l \<noteq> None"
    then obtain lv n where lv: "map_of es (level_key l) = Some (JObj lv)"
      and n: "map_of lv ''pass_rate_2024_2025'' = Some (JNum n)"
      by (auto simp: recorded_def recorded_field_def
          split: option.splits json.splits if_splits)
    have "get_path s [''academic_performance'', ''exam_scores'', level_key l] (JObj [])
            = Inr (JObj lv)"
      using get_path_snoc[of s "[''academic_performance'', ''exam_scores'']" "level_key l"
          "JObj []"] es lv by simp
    then have "get_path s [''academic_performance'', ''exam_scores'', level_key l,
                 ''pass_rate_2024_2025''] JNull = Inr (JNum n)"
      using get_path_snoc[of s "[''academic_performance'', ''exam_scores'', level_key l]"
          "''pass_rate_2024_2025''" JNull] n by simp
    then have "\<not> missing s [''academic_performance'', ''exam_scores'', level_key l,
                 ''pass_rate_2024_2025'']"
      by (simp add: missing_def lookup_def)
    moreover from l have "missing s [''academic_performance'', ''exam_scores'', level_key l,
                 ''pass_rate_2024_2025'']"
      by (cases l) (simp_all add: lacks_pass_rate_def)
    ultimately show False by simp
  qed
  then show ?thesis by (simp add: pass_rates_def map_filter_simps)
qed

lemma academic_score_wf_null:
  assumes "wf_school s" and sm: "small s"
  shows "\<exists>r. calculate_academic_score s = Inr r \<and> details r \<noteq> []
           \<and> (lacks_pass_rate s \<longrightarrow> score r = None)"
proof -
  from assms(1) obtain es where
    es: "get_path s [''academic_performance'', ''exam_scores''] (JObj []) = Inr (JObj es)"
    and wf: "wf_exam_scores es" by (rule wf_exam_scores_path)
  from small_get_path[OF es sm] have "small (JObj es)" by simp
  from academic_score_wf[OF es wf this] lacks_pass_rate_none[OF es]
  show ?thesis by auto
qed

lemma lacks_has:
  "lacks_commute s \<Longrightarrow> \<not> has_commute s"
  "lacks_enrollment s \<Longrightarrow> \<not> has_enrollment s"
  "lacks_rating s key \<Longrightarrow> \<not> has_rating s key"
  by (auto simp: lacks_commute_def has_commute_def lacks_enrollment_def has_enrollment_def
      lacks_rating_def has_rating_def missing_def
      split: json.splits list.splits option.splits)

lemma facilities_score_wf:
  assumes "wf_school s"
  shows "\<exists>r x. calculate_facilities_score s = Inr r \<and> details r \<noteq> []
           \<and> score r = Some x \<and> 50 \<le> x"
proof -
  from assms obtain fa d sp cl li te where f: "py_get s ''facilities'' (JObj []) = Inr (JObj fa)"
    "get_path (JObj fa) [''technology'', ''description''] JNull = Inr d"
    "py_get (JObj fa) ''sports_facilities'' (JArr []) = Inr (JArr sp)"
    "py_get (JObj fa) ''classrooms_labs_quality'' (JStr []) = Inr (JStr cl)"
    "py_get (JObj fa) ''library'' (JObj []) = Inr li"
    "py_get (JObj fa) ''technology'' JNull = Inr te"
    by (rule wf_facilities_paths)
  have r: "50 \<le> py_round1 x" if "50 \<le> x" for x :: real
  proof -
    have "py_round1 50 \<le> py_round1 x" using that by (rule py_round1_mono)
    moreover have "py_round1 50 = 50" using py_round1_int[of 50] by simp
    ultimately show ?thesis by simp
  qed
  show ?thesis
    unfolding calculate_facilities_score_def f py_bind_Inr Let_def
    by (auto simp del: py_get.simps get_path.simps simp: r)
qed

lemma extracurriculars_score_wf:
  assumes "wf_school s"
  shows "\<exists>r x. calculate_extracurriculars_score s = Inr r \<and> details r \<noteq> []
           \<and> score r = Some x \<and> 50 \<le> x"
proof -
  from assms obtain xs ys zs where p:
    "get_path s [''academic_performance'', ''extracurricular_activities''] (JArr [])
       = Inr (JArr xs)"
    "get_path s [''student_support'', ''after_school_programs''] (JArr []) = Inr (JArr ys)"
    by (rule wf_activity_paths)
  show ?thesis
    unfolding calculate_extracurriculars_score_def p py_bind_Inr by (simp add: Let_def)
qed

lemma strs_of_wf: "list_all is_str xs \<Longrightarrow> \<exists>ss. strs_of xs = Inr ss"
proof (induction xs)
  case Nil
  show ?case by simp
next
  case (Cons x xs)
  then obtain s where "x = JStr s" by (cases x) simp_all
  with Cons show ?case by auto
qed

lemma special_programs_score_wf:
  assumes "wf_school s"
  shows "\<exists>r x. calculate_special_programs_score s = Inr r \<and> details r \<noteq> []
           \<and> score r = Some x \<and> 50 \<le> x"
proof -
  from assms obtain xs ys zs where p:
    "get_path s [''academic_performance'', ''special_programs''] (JArr []) = Inr (JArr zs)"
    and z: "list_all is_str zs"
    by (rule wf_activity_paths)
  from z have "list_all is_str (take 3 zs)"
    by (auto simp: list_all_iff dest: in_set_takeD)
  from strs_of_wf[OF this] obtain ss where "strs_of (take 3 zs) = Inr ss" by blast
  then show ?thesis
    unfolding calculate_special_programs_score_def p py_bind_Inr by simp
qed

lemma composite_returns:
  assumes "calculate_academic_score s = Inr a" "calculate_proximity_score s = Inr p"
    "calculate_parent_satisfaction_score s = Inr pa"
    "calculate_student_satisfaction_score s = Inr st"
    "calculate_facilities_score s = Inr f"
    "calculate_school_size_score s (preferred_size_of ps) = Inr z"
    "calculate_extracurriculars_score s = Inr e"
    "calculate_special_programs_score s = Inr sp"
  shows "\<exists>c. calculate_composite_score s ws ps = Inr c"
proof -
  have ps: "(case map_of (case ps of None \<Rightarrow> [] | Some p \<Rightarrow> p) ''school_size'' of
               Some p \<Rightarrow> p | None \<Rightarrow> ''medium'') = preferred_size_of ps"
    by (simp add: preferred_size_of_def split: option.splits)
  show ?thesis
    unfolding calculate_composite_score_def Let_def ps assms py_bind_Inr
    by (simp split: prod.splits)
qed

lemma contributing_filter:
  "contributing scores (filter (\<lambda>(c, w). has_score scores c) ws) = contributing scores ws"
  by (induction ws)
    (auto simp: contributing_def has_score_def map_filter_simps split: option.splits)

lemma composite_drop_unscored:
  assumes "calculate_composite_score s ws ps = Inr c"
  shows "\<exists>c'. calculate_composite_score s
                 (Some (filter (\<lambda>(cat, w). has_score (category_scores c) cat) (weights_used c)))
                 ps = Inr c'
              \<and> composite_score c' = composite_score c \<and> total_weight c' = total_weight c"
proof -
  from assms obtain a p pa st f z e sp where
    sc: "calculate_academic_score s = Inr a" "calculate_proximity_score s = Inr p"
      "calculate_parent_satisfaction_score s = Inr pa"
      "calculate_student_satisfaction_score s = Inr st"
      "calculate_facilities_score s = Inr f"
      "calculate_school_size_score s (preferred_size_of ps) = Inr z"
      "calculate_extracurriculars_score s = Inr e"
      "calculate_special_programs_score s = Inr sp"
    and cs: "category_scores c = [(''academic_performance'', a), (''proximity'', p),
                      (''parent_satisfaction'', pa), (''student_satisfaction'', st),
                      (''facilities'', f), (''school_size'', z),
                      (''extracurriculars'', e), (''special_programs'', sp)]"
    and tw: "total_weight c = weight_total (contributing (category_scores c) (weights_used c))"
    and co: "composite_score c =
       (if 0 < weight_total (contributing (category_scores c) (weights_used c))
           \<and> weighted_total (contributing (category_scores c) (weights_used c)) \<noteq> 0
        then Some (py_round1 (weighted_total (contributing (category_scores c) (weights_used c))
                              / weight_total (contributing (category_scores c) (weights_used c))))
        else None)"
    by (rule composite_result)
  define ws' where
    "ws' = filter (\<lambda>(cat, w). has_score (category_scores c) cat) (weights_used c)"
  from composite_returns[OF sc] obtain c'
    where c': "calculate_composite_score s (Some ws') ps = Inr c'" by blast
  from c' obtain a' p' pa' st' f' z' e' sp' where
    sc': "calculate_academic_score s = Inr a'" "calculate_proximity_score s = Inr p'"
      "calculate_parent_satisfaction_score s = Inr pa'"
      "calculate_student_satisfaction_score s = Inr st'"
      "calculate_facilities_score s = Inr f'"
      "calculate_school_size_score s (preferred_size_of ps) = Inr z'"
      "calculate_extracurriculars_score s = Inr e'"
      "calculate_special_programs_score s = Inr sp'"
    and cs': "category_scores c' = [(''academic_performance'', a'), (''proximity'', p'),
                      (''parent_satisfaction'', pa'), (''student_satisfaction'', st'),
                      (''facilities'', f'), (''school_size'', z'),
                      (''extracurriculars'', e'), (''special_programs'', sp')]"
    and wu': "weights_used c' = (case Some ws' of None \<Rightarrow> DEFAULT_WEIGHTS | Some w \<Rightarrow> w)"
    and tw': "total_weight c' = weight_total (contributing (category_scores c') (weights_used c'))"
    and co': "composite_score c' =
       (if 0 < weight_total (contributing (category_scores c') (weights_used c'))
           \<and> weighted_total (contributing (category_scores c') (weights_used c')) \<noteq> 0
        then Some (py_round1 (weighted_total (contributing (category_scores c') (weights_used c'))
                              / weight_total (contributing (category_scores c') (weights_used c'))))
        else None)"
    by (rule composite_result)
  have same: "category_scores c' = category_scores c"
    using sc sc' by (simp add: cs cs')
  have "contributing (category_scores c') (weights_used c')
        = contributing (category_scores c) (weights_used c)"
    unfolding same wu' ws'_def by (simp add: contributing_filter)
  then have "composite_score c' = composite_score c" "total_weight c' = total_weight c"
    by (simp_all add: co co' tw tw')
  with c' show ?thesis unfolding ws'_def by blast
qed

lemma accumulate_filter:
  "accumulate scores (filter (\<lambda>(c, w). has_score scores c) ws) acc = accumulate scores ws acc"
  by (cases acc) (simp add: accumulate_contributing contributing_filter)
subsection \<open>The ranking loop\<close>




section \<open>Properties of the category scorers\<close>

subsection \<open>Proximity\<close>

text \<open>
  Claim C4 gives a school whose bike duration is present the score of that duration,
  \<open>100 - m\<close> up to ten minutes, and a score that never rises with the duration. The
  program tests the duration by its truth value (\<^verbatim>\<open>if not bike_mins\<close>,
  \<^verbatim>\<open>bike_mins if bike_mins else transit_mins\<close>), so a bike duration of 0 minutes counts
  as absent, against its own comment \<^verbatim>\<open>Score: 100 for 0 mins\<close>. Here a school has a bike
  duration of 0 minutes and a transit duration of 25 minutes: it scores 60 by transit
  where the claim has 100 by bike, and less than the same school one minute further
  away by bike, which scores 99.
\<close>

theorem proximity_zero_bike_duration:
  "calculate_proximity_score (bike_transit_school 0 25) =
     Inr \<lparr>score = Some 60, details = [Val (JNum 25), Lit '' mins by '', Lit ''transit'']\<rparr>
   \<and> calculate_proximity_score (bike_transit_school 1 25) =
     Inr \<lparr>score = Some 99, details = [Val (JNum 1), Lit '' mins by '', Lit ''bike'']\<rparr>"
  by (simp add: calculate_proximity_score_def bike_transit_school_def py_round1_def
      round_half_even_def)

text \<open>
  Claim C3 asks for 100 at 0 minutes, 90 at 10 minutes, 70 at 30 minutes and 50 at 60
  minutes, as the comment of the program does (\<^verbatim>\<open>100 for 0 mins\<close>, \<^verbatim>\<open>30 mins = 70\<close>). The
  program gives 90 at 10 minutes, but 50 at 30 minutes, 20 at 60 minutes and no score at
  0 minutes.
\<close>

theorem proximity_at_checkpoints:
  "calculate_proximity_score (bike_school 10) =
     Inr \<lparr>score = Some 90, details = [Val (JNum 10), Lit '' mins by '', Lit ''bike'']\<rparr>
   \<and> calculate_proximity_score (bike_school 30) =
     Inr \<lparr>score = Some 50, details = [Val (JNum 30), Lit '' mins by '', Lit ''bike'']\<rparr>
   \<and> calculate_proximity_score (bike_school 60) =
     Inr \<lparr>score = Some 20, details = [Val (JNum 60), Lit '' mins by '', Lit ''bike'']\<rparr>
   \<and> calculate_proximity_score (bike_school 0) =
     Inr \<lparr>score = None, details = [Lit ''No commute data'']\<rparr>"
  by (simp add: calculate_proximity_score_def bike_school_def py_round1_def round_half_even_def)

subsection \<open>School size\<close>

text \<open>
  Claim C5, as amended. For every school with a recorded (non-zero) enrollment total the
  school-size score is the entry of the preference-versus-bucket table for the given
  preference and the bucket of the enrollment, where the buckets are small (below 500),
  medium (500 up to and including 1000), large (above 1000 up to 1500) and very large
  (above 1500). The preference \<open>any\<close> and every preference that is not a row of the
  table give 80.
\<close>

theorem school_size_table_lookup:
  assumes "get_path s [''basic_info'', ''enrollment'', ''total''] JNull = Inr v"
    and "num_of v = Inr e" and "e \<noteq> 0"
  shows "\<exists>r. calculate_school_size_score s p = Inr r
           \<and> score r = Some (size_table p (size_bucket e))
           \<and> (p = ''any'' \<or> p \<notin> {''small'', ''medium'', ''large''} \<longrightarrow> score r = Some 80)"
  using school_size_score_present[OF assms, of p] by (auto simp: size_table_def)

theorem school_size_table_lookup_witness:
  "get_path (enrollment_school 1200) [''basic_info'', ''enrollment'', ''total''] JNull
     = Inr (JNum 1200)
   \<and> num_of (JNum 1200) = Inr 1200 \<and> (1200::real) \<noteq> 0
   \<and> (\<exists>r. calculate_school_size_score (enrollment_school 1200) ''small'' = Inr r
          \<and> score r = Some 50)"
proof -
  have h1: "get_path (enrollment_school 1200) [''basic_info'', ''enrollment'', ''total''] JNull
              = Inr (JNum 1200)"
    by (simp add: enrollment_school_def)
  have h2: "num_of (JNum 1200) = Inr 1200" by simp
  have h3: "(1200::real) \<noteq> 0" by simp
  have "size_table ''small'' (size_bucket 1200) = 50"
    by (simp add: size_table_def size_bucket_def)
  with school_size_table_lookup[OF h1 h2 h3, of "''small''"]
  have "\<exists>r. calculate_school_size_score (enrollment_school 1200) ''small'' = Inr r
          \<and> score r = Some 50"
    by auto
  with h1 h2 h3 show ?thesis by blast
qed

text \<open>
  Claim C5 as stated puts an enrollment of 1000 in the bucket large, which the preference
  small scores 50. The program puts it in medium and scores 70.
\<close>

theorem school_size_table_lookup_counterexample:
  "calculate_school_size_score (enrollment_school 1000) ''small'' =
     Inr \<lparr>score = Some 70,
          details = [Val (JNum 1000), Lit '' students ('', Lit ''medium'', Lit '')'']\<rparr>
   \<and> size_table ''small'' (size_bucket_stated 1000) = 50"
  by (simp add: calculate_school_size_score_def enrollment_school_def preference_scores_def
      replace_underscore_def size_table_def size_bucket_stated_def)

subsection \<open>Satisfaction\<close>

text \<open>
  Claim C10. When the parent (student) reviews of a school are a non-empty sequence whose
  first review has an overall rating of 0, the parent (student) satisfaction scorer
  returns no score, with the details \<^verbatim>\<open>No rating available\<close>, and not a score of 0:
  the program tests the rating by its truth value.
\<close>

theorem zero_rating_scores_null:
  "(get_path s [''reviews_reputation'', ''parent_reviews''] (JArr []) = Inr (JArr (JObj r # rest))
      \<and> map_of r ''overall_rating'' = Some (JNum 0)
    \<longrightarrow> calculate_parent_satisfaction_score s =
          Inr \<lparr>score = None, details = [Lit ''No rating available'']\<rparr>)
   \<and> (get_path s [''reviews_reputation'', ''student_reviews''] (JArr []) = Inr (JArr (JObj r' # rest'))
      \<and> map_of r' ''overall_rating'' = Some (JNum 0)
    \<longrightarrow> calculate_student_satisfaction_score s =
          Inr \<lparr>score = None, details = [Lit ''No rating available'']\<rparr>)"
  by (simp add: calculate_parent_satisfaction_score_def
      calculate_student_satisfaction_score_def)

theorem zero_rating_scores_null_witness:
  "get_path zero_rating_school [''reviews_reputation'', ''parent_reviews''] (JArr [])
     = Inr (JArr (JObj [(''overall_rating'', JNum 0), (''would_recommend'', JNum 7)] # []))
   \<and> map_of [(''overall_rating'', JNum 0), (''would_recommend'', JNum 7)] ''overall_rating''
     = Some (JNum 0)
   \<and> calculate_parent_satisfaction_score zero_rating_school =
       Inr \<lparr>score = None, details = [Lit ''No rating available'']\<rparr>
   \<and> get_path zero_rating_school [''reviews_reputation'', ''student_reviews''] (JArr [])
     = Inr (JArr (JObj [(''overall_rating'', JNum 0)] # [JObj [(''overall_rating'', JNum 8)]]))
   \<and> map_of [(''overall_rating'', JNum 0)] ''overall_rating'' = Some (JNum 0)
   \<and> calculate_student_satisfaction_score zero_rating_school =
       Inr \<lparr>score = None, details = [Lit ''No rating available'']\<rparr>"
proof -
  have p1: "get_path zero_rating_school [''reviews_reputation'', ''parent_reviews''] (JArr [])
     = Inr (JArr (JObj [(''overall_rating'', JNum 0), (''would_recommend'', JNum 7)] # []))"
    by (simp add: zero_rating_school_def)
  have p2: "map_of [(''overall_rating'', JNum 0), (''would_recommend'', JNum 7)]
              ''overall_rating'' = Some (JNum 0)"
    by simp
  have s1: "get_path zero_rating_school [''reviews_reputation'', ''student_reviews''] (JArr [])
     = Inr (JArr (JObj [(''overall_rating'', JNum 0)] # [JObj [(''overall_rating'', JNum 8)]]))"
    by (simp add: zero_rating_school_def)
  have s2: "map_of [(''overall_rating'', JNum 0)] ''overall_rating'' = Some (JNum 0)"
    by simp
  from zero_rating_scores_null[of zero_rating_school
      "[(''overall_rating'', JNum 0), (''would_recommend'', JNum 7)]" "[]"
      "[(''overall_rating'', JNum 0)]" "[JObj [(''overall_rating'', JNum 8)]]"] p1 p2 s1 s2
  show ?thesis by blast
qed

subsection \<open>Academic performance\<close>

text \<open>
  Claim C6 takes the mean of the pass rates that are present, weighted by level. The
  program tests a pass rate by its truth value (\<^verbatim>\<open>if rate:\<close>), so a pass rate of 0 is
  left out as if it were absent. Here a school has a havo pass rate of 90 and a vwo pass
  rate of 0, no five-year average and no candidates: the weighted mean of the claim is
  \<open>(90 * 1.0 + 0 * 1.5) / 2.5 = 36\<close>, and the program scores the school 90, the havo rate
  alone.
\<close>

theorem academic_zero_pass_rate:
  "calculate_academic_score (havo_vwo_school 90 0) =
     Inr \<lparr>score = Some 90,
          details = [Fix1 90, Lit ''% pass rate, '', Num 0, Lit '' candidates'']\<rparr>"
  by (simp add: calculate_academic_score_def havo_vwo_school_def py_round1_def
      round_half_even_def is_integer_def py_float_def float_limit_def)

section \<open>Properties of the composite score\<close>

text \<open>
  Claim C1 makes the composite score the weighted average over the categories that are
  in the weights and have a score. The program returns that average only when it is not
  zero: the quotient is tested by its truth value before it is rounded. Here the weights
  hold proximity alone, with a weight of 100, and the school is 95 minutes away by bike:
  proximity is the one contributing category, with the score 0 and the weight 100, the
  total weight is 100, and the program returns no composite score where the weighted
  average is 0.
\<close>

theorem composite_of_zero_scores:
  "map_sum id (\<lambda>r. (composite_score r,
                     contributing (category_scores r) (weights_used r), total_weight r))
     (calculate_composite_score (bike_school 95) (Some [(''proximity'', 100)]) None)
   = Inr (None, [(0, 100)], 100)"
  by (simp add: calculate_composite_score_def scorer_defs bike_school_def
      preference_scores_def py_round1_def round_half_even_def
      contributing_def map_filter_simps)

text \<open>
  Claim C2 asks for a composite score of 0.0 when the total weight is positive and the
  contributing scores average to 0. The program tests the quotient by its truth value
  and returns no composite score. Here the school is 80 minutes away by bike (proximity
  score 0) and proximity is the only category with a weight above 0: the total weight is
  40, the weighted sum is 0, and the composite score is missing.
\<close>

theorem composite_zero_average_is_null:
  "map_sum id (\<lambda>r. (composite_score r, total_weight r,
                     weighted_total (contributing (category_scores r) (weights_used r))))
     (calculate_composite_score (bike_school 80) (Some proximity_only_weights) None)
   = Inr (None, 40, 0)"
  by (simp add: calculate_composite_score_def scorer_defs bike_school_def
      proximity_only_weights_def preference_scores_def py_round1_def round_half_even_def
      contributing_def weighted_total_def map_filter_simps)

section \<open>Sparse records\<close>

text \<open>
  Claim C9 lets no category scorer raise on a record that conforms to the data model.
  The data model bounds no number, and Python converts an \<^verbatim>\<open>int\<close> to a \<^verbatim>\<open>float\<close> where
  the scorers divide or format it: a record that conforms, with a vwo pass rate of 80 and
  \<open>10 ^ 400\<close> candidates, makes the academic scorer raise \<^verbatim>\<open>OverflowError\<close> at
  \<^verbatim>\<open>total_candidates / 500\<close>, and with it the composite score.
\<close>

theorem sparse_records_score_without_exception_counterexample:
  "wf_school (candidates_school (10 ^ 400))
   \<and> calculate_academic_score (candidates_school (10 ^ 400)) = Inl OverflowError
   \<and> calculate_composite_score (candidates_school (10 ^ 400)) None None = Inl OverflowError"
proof -
  have a: "calculate_academic_score (candidates_school (10 ^ 400)) = Inl OverflowError"
    by (simp add: calculate_academic_score_def candidates_school_def is_integer_def
        py_float_def float_limit_def)
  have "wf_school (candidates_school (10 ^ 400))"
    by (simp add: candidates_school_def wf_school_def wf_basic_info_def wf_academic_def
        wf_exam_scores_def wf_level_fields_def opt_field_def)
  moreover have "calculate_composite_score (candidates_school (10 ^ 400)) None None
      = Inl OverflowError"
    unfolding calculate_composite_score_def Let_def a by simp
  ultimately show ?thesis using a by simp
qed

text \<open>
  Claim C9, as amended. On every well-formed school record, however sparse, whose
  numbers are all of a magnitude below \<open>2 ^ 1000\<close>, each of the eight category scorers and
  the composite score under the default weights return without raising, and every
  category score comes with details. A category that lacks the data it needs reports no
  score: academic performance when the pass rate is missing at every level, proximity
  when both durations are missing, parent and student satisfaction when there is no
  review or the first review has no overall rating, school size when the enrollment
  total is missing. Facilities, extracurriculars and special programs always have a
  score, of at least 50. In the aggregation a category without a score counts for
  nothing: for any weights the two running sums are those of the weights without these
  categories, and under the default weights leaving them out changes neither the
  composite score nor the total weight.
\<close>

theorem sparse_records_score_without_exception:
  assumes "wf_school s" and "small s"
  shows "\<exists>a p pa st f z e sp c c'.
      calculate_academic_score s = Inr a
      \<and> calculate_proximity_score s = Inr p
      \<and> calculate_parent_satisfaction_score s = Inr pa
      \<and> calculate_student_satisfaction_score s = Inr st
      \<and> calculate_facilities_score s = Inr f
      \<and> calculate_school_size_score s (preferred_size_of ps) = Inr z
      \<and> calculate_extracurriculars_score s = Inr e
      \<and> calculate_special_programs_score s = Inr sp
      \<and> calculate_composite_score s None ps = Inr c
      \<and> list_all (\<lambda>r. details r \<noteq> []) [a, p, pa, st, f, z, e, sp]
      \<and> (lacks_pass_rate s \<longrightarrow> score a = None)
      \<and> (lacks_commute s \<longrightarrow> score p = None)
      \<and> (lacks_rating s ''parent_reviews'' \<longrightarrow> score pa = None)
      \<and> (lacks_rating s ''student_reviews'' \<longrightarrow> score st = None)
      \<and> (lacks_enrollment s \<longrightarrow> score z = None)
      \<and> (\<exists>x. score f = Some x \<and> 50 \<le> x)
      \<and> (\<exists>x. score e = Some x \<and> 50 \<le> x)
      \<and> (\<exists>x. score sp = Some x \<and> 50 \<le> x)
      \<and> category_scores c =
           [(''academic_performance'', a), (''proximity'', p), (''parent_satisfaction'', pa),
            (''student_satisfaction'', st), (''facilities'', f), (''school_size'', z),
            (''extracurriculars'', e), (''special_programs'', sp)]
      \<and> accumulate (category_scores c) ws acc
           = accumulate (category_scores c)
               (filter (\<lambda>(cat, w). has_score (category_scores c) cat) ws) acc
      \<and> calculate_composite_score s
           (Some (filter (\<lambda>(cat, w). has_score (category_scores c) cat) DEFAULT_WEIGHTS))
           ps = Inr c'
      \<and> composite_score c' = composite_score c \<and> total_weight c' = total_weight c"
proof -
  from academic_score_wf_null[OF assms] obtain a where a: "calculate_academic_score s = Inr a"
    "details a \<noteq> []" "lacks_pass_rate s \<longrightarrow> score a = None" by auto
  from proximity_score_wf[OF assms(1)] lacks_has(1)[of s]
  obtain p where p: "calculate_proximity_score s = Inr p"
    "details p \<noteq> []" "lacks_commute s \<longrightarrow> score p = None" by auto
  from satisfaction_scores_wf[OF assms] lacks_has(3)[of s "''parent_reviews''"]
  obtain pa where
    pa: "calculate_parent_satisfaction_score s = Inr pa" "details pa \<noteq> []"
      "lacks_rating s ''parent_reviews'' \<longrightarrow> score pa = None" by auto
  from satisfaction_scores_wf[OF assms] lacks_has(3)[of s "''student_reviews''"]
  obtain st where
    st: "calculate_student_satisfaction_score s = Inr st" "details st \<noteq> []"
      "lacks_rating s ''student_reviews'' \<longrightarrow> score st = None" by auto
  from facilities_score_wf[OF assms(1)] obtain f where f: "calculate_facilities_score s = Inr f"
    "details f \<noteq> []" "\<exists>x. score f = Some x \<and> 50 \<le> x" by auto
  from school_size_score_wf[OF assms(1), of "preferred_size_of ps"] lacks_has(2)[of s]
  obtain z where
    z: "calculate_school_size_score s (preferred_size_of ps) = Inr z" "details z \<noteq> []"
      "lacks_enrollment s \<longrightarrow> score z = None" by auto
  from extracurriculars_score_wf[OF assms(1)] obtain e where
    e: "calculate_extracurriculars_score s = Inr e" "details e \<noteq> []"
      "\<exists>x. score e = Some x \<and> 50 \<le> x" by auto
  from special_programs_score_wf[OF assms(1)] obtain sp where
    sp: "calculate_special_programs_score s = Inr sp" "details sp \<noteq> []"
      "\<exists>x. score sp = Some x \<and> 50 \<le> x" by auto
  from composite_returns[OF a(1) p(1) pa(1) st(1) f(1) z(1) e(1) sp(1)] obtain c
    where c: "calculate_composite_score s None ps = Inr c" by blast
  from c have wu: "weights_used c = DEFAULT_WEIGHTS"
    by (rule composite_result) simp
  from c a(1) p(1) pa(1) st(1) f(1) z(1) e(1) sp(1)
  have cs: "category_scores c =
           [(''academic_performance'', a), (''proximity'', p), (''parent_satisfaction'', pa),
            (''student_satisfaction'', st), (''facilities'', f), (''school_size'', z),
            (''extracurriculars'', e), (''special_programs'', sp)]"
    by (elim composite_result) simp
  from composite_drop_unscored[OF c] obtain c' where
    c': "calculate_composite_score s
           (Some (filter (\<lambda>(cat, w). has_score (category_scores c) cat) DEFAULT_WEIGHTS))
           ps = Inr c'"
      "composite_score c' = composite_score c" "total_weight c' = total_weight c"
    unfolding wu by blast
  have ac: "accumulate (category_scores c) ws acc
           = accumulate (category_scores c)
               (filter (\<lambda>(cat, w). has_score (category_scores c) cat) ws) acc"
    by (simp add: accumulate_filter)
  have d: "list_all (\<lambda>r. details r \<noteq> []) [a, p, pa, st, f, z, e, sp]"
    using a(2) p(2) pa(2) st(2) f(2) z(2) e(2) sp(2) by simp
  show ?thesis
    apply (rule exI[of _ a], rule exI[of _ p], rule exI[of _ pa], rule exI[of _ st])
    apply (rule exI[of _ f], rule exI[of _ z], rule exI[of _ e], rule exI[of _ sp])
    apply (rule exI[of _ c], rule exI[of _ c'])
    apply (intro conjI)
    apply (fact a p pa st f z e sp c c' d cs ac)+
    done
qed

theorem sparse_records_score_without_exception_witness:
  "wf_school bare_school \<and> small bare_school
   \<and> lacks_pass_rate bare_school \<and> lacks_commute bare_school
   \<and> lacks_rating bare_school ''parent_reviews''
   \<and> lacks_rating bare_school ''student_reviews'' \<and> lacks_enrollment bare_school
   \<and> (\<exists>a p pa st f z e sp c.
        calculate_academic_score bare_school = Inr a
        \<and> calculate_proximity_score bare_school = Inr p
        \<and> calculate_parent_satisfaction_score bare_school = Inr pa
        \<and> calculate_student_satisfaction_score bare_school = Inr st
        \<and> calculate_facilities_score bare_school = Inr f
        \<and> calculate_school_size_score bare_school ''medium'' = Inr z
        \<and> calculate_extracurriculars_score bare_school = Inr e
        \<and> calculate_special_programs_score bare_school = Inr sp
        \<and> calculate_composite_score bare_school None None = Inr c
        \<and> map score [a, p, pa, st, z] = [None, None, None, None, None]
        \<and> list_all (\<lambda>r. details r \<noteq> []) [a, p, pa, st, f, z, e, sp])"
proof -
  have w: "wf_school bare_school" "small bare_school"
    by (simp_all add: bare_school_def wf_school_def wf_basic_info_def opt_field_def)
  have n: "lacks_pass_rate bare_school" "lacks_commute bare_school"
    "lacks_rating bare_school ''parent_reviews''"
    "lacks_rating bare_school ''student_reviews''" "lacks_enrollment bare_school"
    by (simp_all add: bare_school_def lacks_pass_rate_def lacks_commute_def lacks_rating_def
        lacks_enrollment_def missing_def lookup_def)
  have m: "preferred_size_of None = ''medium''" by (simp add: preferred_size_of_def)
  from sparse_records_score_without_exception[OF w, where ps = None and ws = "[]"
      and acc = "(0, 0)", unfolded m]
  obtain a p pa st f z e sp c where r:
    "calculate_academic_score bare_school = Inr a"
    "calculate_proximity_score bare_school = Inr p"
    "calculate_parent_satisfaction_score bare_school = Inr pa"
    "calculate_student_satisfaction_score bare_school = Inr st"
    "calculate_facilities_score bare_school = Inr f"
    "calculate_school_size_score bare_school ''medium'' = Inr z"
    "calculate_extracurriculars_score bare_school = Inr e"
    "calculate_special_programs_score bare_school = Inr sp"
    "calculate_composite_score bare_school None None = Inr c"
    "list_all (\<lambda>r. details r \<noteq> []) [a, p, pa, st, f, z, e, sp]"
    "lacks_pass_rate bare_school \<longrightarrow> score a = None"
    "lacks_commute bare_school \<longrightarrow> score p = None"
    "lacks_rating bare_school ''parent_reviews'' \<longrightarrow> score pa = None"
    "lacks_rating bare_school ''student_reviews'' \<longrightarrow> score st = None"
    "lacks_enrollment bare_school \<longrightarrow> score z = None"
    by (elim exE conjE) (rule that)
  from r(11-15) n have "map score [a, p, pa, st, z] = [None, None, None, None, None]"
    by simp
  with r(1-10) have "\<exists>a p pa st f z e sp c.
        calculate_academic_score bare_school = Inr a
        \<and> calculate_proximity_score bare_school = Inr p
        \<and> calculate_parent_satisfaction_score bare_school = Inr pa
        \<and> calculate_student_satisfaction_score bare_school = Inr st
        \<and> calculate_facilities_score bare_school = Inr f
        \<and> calculate_school_size_score bare_school ''medium'' = Inr z
        \<and> calculate_extracurriculars_score bare_school = Inr e
        \<and> calculate_special_programs_score bare_school = Inr sp
        \<and> calculate_composite_score bare_school None None = Inr c
        \<and> map score [a, p, pa, st, z] = [None, None, None, None, None]
        \<and> list_all (\<lambda>r. details r \<noteq> []) [a, p, pa, st, f, z, e, sp]"
    by (intro exI conjI)
  with w n show ?thesis by (intro conjI)
qed

section \<open>Properties of filtering and ranking\<close>

text \<open>
  Claim C7, as amended. Only the filter \<^verbatim>\<open>max_commute_minutes\<close> lets a school with a
  missing field pass: a school with no bike duration passes it. A non-empty filter on
  \<^verbatim>\<open>city\<close>, on \<^verbatim>\<open>religious_affiliation\<close> or on \<^verbatim>\<open>school_type\<close> excludes every school
  that lacks the city, the religious affiliation or the list of types: such a school never
  passes filters that contain it, and it fails the filter taken alone.
\<close>

theorem filters_on_missing_fields:
  "(city fs = Some c \<and> c \<noteq> []
      \<and> get_path s [''basic_info'', ''city''] (JStr []) = Inr (JStr [])
    \<longrightarrow> passes_filters s fs \<noteq> Inr True)
   \<and> (religious_affiliation fs = Some ra \<and> ra \<noteq> []
      \<and> get_path s [''basic_info'', ''religious_affiliation''] (JStr []) = Inr (JStr [])
    \<longrightarrow> passes_filters s fs \<noteq> Inr True)
   \<and> (school_type fs = Some ts \<and> ts \<noteq> []
      \<and> get_path s [''basic_info'', ''type''] (JArr []) = Inr (JArr [])
    \<longrightarrow> passes_filters s fs \<noteq> Inr True)
   \<and> (get_path s [''basic_info'', ''city''] (JStr []) = Inr (JStr []) \<and> c \<noteq> []
    \<longrightarrow> passes_filters s \<lparr>school_type = None, religious_affiliation = None,
                            max_commute_minutes = None, city = Some c\<rparr> = Inr False)
   \<and> (get_path s [''basic_info'', ''religious_affiliation''] (JStr []) = Inr (JStr [])
      \<and> ra \<noteq> []
    \<longrightarrow> passes_filters s \<lparr>school_type = None, religious_affiliation = Some ra,
                            max_commute_minutes = None, city = None\<rparr> = Inr False)
   \<and> (get_path s [''basic_info'', ''type''] (JArr []) = Inr (JArr []) \<and> ts \<noteq> []
    \<longrightarrow> passes_filters s \<lparr>school_type = Some ts, religious_affiliation = None,
                            max_commute_minutes = None, city = None\<rparr> = Inr False)
   \<and> (get_path s [''location'', ''bike_accessibility'', ''duration_minutes''] JNull = Inr v
      \<and> \<not> truthy v
    \<longrightarrow> passes_filters s \<lparr>school_type = None, religious_affiliation = None,
                            max_commute_minutes = Some mx, city = None\<rparr> = Inr True)"
proof (intro conjI impI)
  assume "city fs = Some c \<and> c \<noteq> []
      \<and> get_path s [''basic_info'', ''city''] (JStr []) = Inr (JStr [])"
  then show "passes_filters s fs \<noteq> Inr True"
    unfolding passes_filters_def
    by (auto simp: py_bind_def split: sum.splits)
next
  assume "religious_affiliation fs = Some ra \<and> ra \<noteq> []
      \<and> get_path s [''basic_info'', ''religious_affiliation''] (JStr []) = Inr (JStr [])"
  then show "passes_filters s fs \<noteq> Inr True"
    unfolding passes_filters_def
    by (auto simp: py_bind_def split: sum.splits)
next
  assume "school_type fs = Some ts \<and> ts \<noteq> []
      \<and> get_path s [''basic_info'', ''type''] (JArr []) = Inr (JArr [])"
  then show "passes_filters s fs \<noteq> Inr True"
    unfolding passes_filters_def
    by (auto simp: py_any_in_empty_list)
next
  assume "get_path s [''basic_info'', ''city''] (JStr []) = Inr (JStr []) \<and> c \<noteq> []"
  then show "passes_filters s \<lparr>school_type = None, religious_affiliation = None,
                            max_commute_minutes = None, city = Some c\<rparr> = Inr False"
    unfolding passes_filters_def by auto
next
  assume "get_path s [''basic_info'', ''religious_affiliation''] (JStr []) = Inr (JStr [])
      \<and> ra \<noteq> []"
  then show "passes_filters s \<lparr>school_type = None, religious_affiliation = Some ra,
                            max_commute_minutes = None, city = None\<rparr> = Inr False"
    unfolding passes_filters_def by auto
next
  assume "get_path s [''basic_info'', ''type''] (JArr []) = Inr (JArr []) \<and> ts \<noteq> []"
  then show "passes_filters s \<lparr>school_type = Some ts, religious_affiliation = None,
                            max_commute_minutes = None, city = None\<rparr> = Inr False"
    unfolding passes_filters_def by (auto simp: py_any_in_empty_list)
next
  assume "get_path s [''location'', ''bike_accessibility'', ''duration_minutes''] JNull = Inr v
      \<and> \<not> truthy v"
  then show "passes_filters s \<lparr>school_type = None, religious_affiliation = None,
                            max_commute_minutes = Some mx, city = None\<rparr> = Inr True"
    unfolding passes_filters_def by auto
qed

theorem filters_on_missing_fields_witness:
  "city all_filters = Some ''Amsterdam'' \<and> ''Amsterdam'' \<noteq> []
   \<and> get_path (enrollment_school 800) [''basic_info'', ''city''] (JStr []) = Inr (JStr [])
   \<and> religious_affiliation all_filters = Some ''Openbaar'' \<and> ''Openbaar'' \<noteq> []
   \<and> get_path (enrollment_school 800) [''basic_info'', ''religious_affiliation''] (JStr [])
       = Inr (JStr [])
   \<and> school_type all_filters = Some [''vwo''] \<and> [''vwo''] \<noteq> []
   \<and> get_path (enrollment_school 800) [''basic_info'', ''type''] (JArr []) = Inr (JArr [])
   \<and> get_path (enrollment_school 800)
        [''location'', ''bike_accessibility'', ''duration_minutes''] JNull = Inr JNull
   \<and> \<not> truthy JNull
   \<and> passes_filters (enrollment_school 800) all_filters \<noteq> Inr True
   \<and> passes_filters (enrollment_school 800)
        \<lparr>school_type = None, religious_affiliation = None, max_commute_minutes = None,
         city = Some ''Amsterdam''\<rparr> = Inr False
   \<and> passes_filters (enrollment_school 800)
        \<lparr>school_type = None, religious_affiliation = Some ''Openbaar'',
         max_commute_minutes = None, city = None\<rparr> = Inr False
   \<and> passes_filters (enrollment_school 800)
        \<lparr>school_type = Some [''vwo''], religious_affiliation = None,
         max_commute_minutes = None, city = None\<rparr> = Inr False
   \<and> passes_filters (enrollment_school 800)
        \<lparr>school_type = None, religious_affiliation = None, max_commute_minutes = Some 20,
         city = None\<rparr> = Inr True"
proof -
  have h: "city all_filters = Some ''Amsterdam''" "''Amsterdam'' \<noteq> []"
    "religious_affiliation all_filters = Some ''Openbaar''" "''Openbaar'' \<noteq> []"
    "school_type all_filters = Some [''vwo'']" "[''vwo''] \<noteq> []"
    by (simp_all add: all_filters_def)
  have g: "get_path (enrollment_school 800) [''basic_info'', ''city''] (JStr []) = Inr (JStr [])"
    "get_path (enrollment_school 800) [''basic_info'', ''religious_affiliation''] (JStr [])
       = Inr (JStr [])"
    "get_path (enrollment_school 800) [''basic_info'', ''type''] (JArr []) = Inr (JArr [])"
    "get_path (enrollment_school 800)
        [''location'', ''bike_accessibility'', ''duration_minutes''] JNull = Inr JNull"
    "\<not> truthy JNull"
    by (simp_all add: enrollment_school_def)
  from filters_on_missing_fields[of all_filters "''Amsterdam''" "enrollment_school 800"
      "''Openbaar''" "[''vwo'']" JNull 20] h g
  show ?thesis by blast
qed

text \<open>
  Claim C7 as stated lets a school with no city pass a city filter and a school with no
  religious affiliation pass a filter on the affiliation. The program excludes both.
\<close>

theorem filters_on_missing_fields_counterexample:
  "passes_filters (enrollment_school 800)
     \<lparr>school_type = None, religious_affiliation = None, max_commute_minutes = None,
      city = Some ''Amsterdam''\<rparr> = Inr False
   \<and> passes_filters (enrollment_school 800)
     \<lparr>school_type = None, religious_affiliation = Some ''Openbaar'',
      max_commute_minutes = None, city = None\<rparr> = Inr False"
  by (simp add: passes_filters_def enrollment_school_def py_lower_def)



end
